theory Spec2Isabelle
  imports Complex_Main
begin

section \<open>Relay types, attributes and errors\<close>

text \<open>
  Element types of tensors, \<^verbatim>\<open>DataType::Int(b)\<close>, \<^verbatim>\<open>DataType::UInt(b)\<close> and
  \<^verbatim>\<open>DataType::Float(b)\<close>.
\<close>

datatype dtype = DInt nat | DUInt nat | DFloat nat

text \<open>A dimension of a tensor shape is a concrete size or symbolic.\<close>

datatype dim = IntImm int | Any

text \<open>
  The type descriptors the validator inspects: \<^verbatim>\<open>TensorTypeNode\<close>, \<^verbatim>\<open>IncompleteTypeNode\<close>
  (a placeholder that type inference has not resolved yet) and, standing for every other
  kind of type, \<^verbatim>\<open>TupleType\<close>.
\<close>

datatype Type = TensorType "dim list" dtype | IncompleteType | TupleType "Type list"

record SoftmaxAttrs =
  axis :: int

text \<open>
  Fatal errors. \<open>ArityViolation k\<close> is the failed \<^verbatim>\<open>ICHECK_EQ\<close> on the number of
  types or arguments (\<open>k\<close> is the size found); \<open>TypeContractViolation i\<close> is a failed
  \<^verbatim>\<open>ICHECK\<close> on the type in slot \<open>i\<close>; \<open>NullDereference\<close> is the dereference of the
  null pointer that \<^verbatim>\<open>as<TensorTypeNode>()\<close> returns for a type that is not a tensor type.
\<close>

datatype error = ArityViolation nat | TypeContractViolation nat | NullDereference

section \<open>The type and shape validator\<close>

text \<open>
  Modelled from the spec: \<^verbatim>\<open>IsScalarType\<close> of \<^verbatim>\<open>op_common.h\<close>, which is not among the
  sources. The type must be a tensor type of rank 0 with the given element type.
\<close>

definition IsScalarType :: "Type \<Rightarrow> dtype \<Rightarrow> bool" where
  "IsScalarType expr_type dt =
     (case expr_type of TensorType shape d \<Rightarrow> shape = [] \<and> d = dt | _ \<Rightarrow> False)"

text \<open>
  Modelled from the spec: \<^verbatim>\<open>IdentityRel\<close>, the identity-shape rule, which is not among the
  sources. It receives the pair of input and output type. The output must have the shape of
  the input: an unresolved output is resolved to the input's type, a resolved output of the
  same shape is kept as it is (its element type is not overridden), and any other output is
  a fatal mismatch, reported for slot 5 of the caller. The attributes are not looked at.
\<close>

fun IdentityRel :: "Type list \<Rightarrow> int \<Rightarrow> SoftmaxAttrs \<Rightarrow> error + (bool \<times> Type list)" where
  "IdentityRel [TensorType shape dt, IncompleteType] num_inputs attrs =
     Inr (True, [TensorType shape dt, TensorType shape dt])"
| "IdentityRel [TensorType shape dt, TensorType shape' dt'] num_inputs attrs =
     (if shape' = shape then Inr (True, [TensorType shape dt, TensorType shape' dt'])
      else Inl (TypeContractViolation 5))"
| "IdentityRel types num_inputs attrs = Inl (TypeContractViolation 5)"

text \<open>
  \<^verbatim>\<open>QnnSoftmaxRel\<close>. The result is a fatal error, or the boolean the relation returns
  together with the types of the six slots after the reporter's assignments.
\<close>

definition QnnSoftmaxRel ::
  "Type list \<Rightarrow> int \<Rightarrow> SoftmaxAttrs \<Rightarrow> error + (bool \<times> Type list)" where
  "QnnSoftmaxRel types num_inputs attrs =
     (if length types \<noteq> 6 then Inl (ArityViolation (length types))
      else case types ! 0 of
        TensorType shape dt \<Rightarrow>
          if dt \<noteq> DInt 8 then Inl (TypeContractViolation 0)
          else if list_ex (\<lambda>i. types ! i = IncompleteType) [1..<5] then Inr (False, types)
          else if \<not> IsScalarType (types ! 1) (DFloat 32) then Inl (TypeContractViolation 1)
          else if \<not> IsScalarType (types ! 2) (DInt 32) then Inl (TypeContractViolation 2)
          else if \<not> IsScalarType (types ! 3) (DFloat 32) then Inl (TypeContractViolation 3)
          else if \<not> IsScalarType (types ! 4) (DInt 32) then Inl (TypeContractViolation 4)
          else
            let assigned = types
                  [1 := TensorType [] (DFloat 32), 2 := TensorType [] (DInt 32),
                   3 := TensorType [] (DFloat 32), 4 := TensorType [] (DInt 32)];
                tensor_types = [types ! 0, types ! 5]
            in (case IdentityRel tensor_types 2 attrs of
                  Inl e \<Rightarrow> Inl e
                | Inr (ok, resolved) \<Rightarrow>
                    Inr (ok, assigned[0 := resolved ! 0, 5 := resolved ! 1]))
      | _ \<Rightarrow> Inr (False, types))"

section \<open>Expression graphs\<close>

text \<open>The payload of a scalar constant: an integer, or a floating-point value given exactly.\<close>

datatype scalar_val = IntVal int | FloatVal rat

text \<open>
  The expression nodes the lowering builds. \<open>Var\<close> stands for an operand expression that
  the lowering receives. The reductions carry their axes and the flags \<^verbatim>\<open>keepdims\<close> and
  \<^verbatim>\<open>exclude\<close>; \<open>Requantize\<close> carries data, input shape, input scale and zero point, output
  scale and zero point, output element type and axis.
\<close>

datatype Expr =
    Var string
  | Constant dtype scalar_val
  | Cast Expr dtype
  | Add Expr Expr
  | Subtract Expr Expr
  | Multiply Expr Expr
  | Divide Expr Expr
  | LeftShift Expr Expr
  | RightShift Expr Expr
  | Negative Expr
  | Round Expr
  | Max_op Expr "int list" bool bool
  | Sum Expr "int list" bool bool
  | Requantize Expr "dim list" Expr Expr Expr Expr dtype int

text \<open>
  Modelled from the spec: \<^verbatim>\<open>MakeConstantScalar\<close>, which is not among the sources. It
  builds the node of a scalar constant of the given element type.
\<close>

definition MakeConstantScalar :: "dtype \<Rightarrow> scalar_val \<Rightarrow> Expr" where
  "MakeConstantScalar dt val = Constant dt val"

section \<open>The integer softmax lowering\<close>

definition const_i64 :: "int \<Rightarrow> Expr" where
  "const_i64 val = MakeConstantScalar (DInt 64) (IntVal val)"

definition const_n :: int where "const_n = 30"
definition const_m :: int where "const_m = 60"
definition const_bits :: int where "const_bits = 8"

text \<open>
  The local expressions of \<^verbatim>\<open>QnnSoftmaxCanonicalize\<close>, one definition for each, as functions
  of the axis and of the operands \<^verbatim>\<open>new_args[0]\<close>, \<^verbatim>\<open>input_scale\<close> and
  \<^verbatim>\<open>input_zero_point\<close> they are built from.
\<close>

definition quantized_data_of :: "Expr \<Rightarrow> Expr \<Rightarrow> Expr" where
  "quantized_data_of data input_zero_point =
     Subtract (Cast data (DInt 64)) (Cast input_zero_point (DInt 64))"

definition x_0_of :: "Expr \<Rightarrow> Expr" where
  "x_0_of input_scale =
     Cast (Round (Divide (MakeConstantScalar (DFloat 32) (FloatVal 1)) input_scale)) (DInt 64)"

definition max_of :: "int \<Rightarrow> Expr \<Rightarrow> Expr \<Rightarrow> Expr" where
  "max_of ax data input_zero_point =
     Max_op (quantized_data_of data input_zero_point) [ax] True False"

definition x_of :: "int \<Rightarrow> Expr \<Rightarrow> Expr \<Rightarrow> Expr" where
  "x_of ax data input_zero_point =
     Subtract (quantized_data_of data input_zero_point) (max_of ax data input_zero_point)"

definition x_p_of :: "int \<Rightarrow> Expr \<Rightarrow> Expr \<Rightarrow> Expr" where
  "x_p_of ax data input_zero_point =
     (let x = x_of ax data input_zero_point
      in Subtract (Add x (RightShift x (const_i64 1))) (RightShift x (const_i64 4)))"

definition q_of :: "int \<Rightarrow> Expr \<Rightarrow> Expr \<Rightarrow> Expr \<Rightarrow> Expr" where
  "q_of ax data input_scale input_zero_point =
     Divide (x_p_of ax data input_zero_point) (Negative (x_0_of input_scale))"

definition r_of :: "int \<Rightarrow> Expr \<Rightarrow> Expr \<Rightarrow> Expr \<Rightarrow> Expr" where
  "r_of ax data input_scale input_zero_point =
     Subtract (x_p_of ax data input_zero_point)
       (Multiply (q_of ax data input_scale input_zero_point) (Negative (x_0_of input_scale)))"

definition x_b_of :: "int \<Rightarrow> Expr \<Rightarrow> Expr \<Rightarrow> Expr \<Rightarrow> Expr" where
  "x_b_of ax data input_scale input_zero_point =
     Add (RightShift (r_of ax data input_scale input_zero_point) (const_i64 1))
       (x_0_of input_scale)"

definition exps_of :: "int \<Rightarrow> Expr \<Rightarrow> Expr \<Rightarrow> Expr \<Rightarrow> Expr" where
  "exps_of ax data input_scale input_zero_point =
     LeftShift (x_b_of ax data input_scale input_zero_point)
       (Subtract (const_i64 const_n) (q_of ax data input_scale input_zero_point))"

definition sums_of :: "int \<Rightarrow> Expr \<Rightarrow> Expr \<Rightarrow> Expr \<Rightarrow> Expr" where
  "sums_of ax data input_scale input_zero_point =
     Sum (exps_of ax data input_scale input_zero_point) [ax] True False"

definition output_of :: "int \<Rightarrow> Expr \<Rightarrow> Expr \<Rightarrow> Expr \<Rightarrow> Expr" where
  "output_of ax data input_scale input_zero_point =
     RightShift
       (Multiply
          (Divide (const_i64 (2 ^ nat const_m)) (sums_of ax data input_scale input_zero_point))
          (exps_of ax data input_scale input_zero_point))
       (const_i64 (const_m - const_bits))"

text \<open>
  \<^verbatim>\<open>QnnSoftmaxCanonicalize\<close>. The synthetic input scale \<^verbatim>\<open>1.f / (1 << bits)\<close> is the
  power of two \<open>1 / 2 ^ 8\<close>, which single precision represents exactly.
\<close>

definition QnnSoftmaxCanonicalize ::
  "SoftmaxAttrs \<Rightarrow> Expr list \<Rightarrow> Type list \<Rightarrow> error + Expr" where
  "QnnSoftmaxCanonicalize attrs new_args arg_types =
     (if length new_args \<noteq> 5 then Inl (ArityViolation (length new_args))
      else
        let input_scale = new_args ! 1;
            input_zero_point = new_args ! 2;
            output_scale = new_args ! 3;
            output_zero_point = new_args ! 4;
            ax = axis attrs;
            output = output_of ax (new_args ! 0) input_scale input_zero_point
        in (case arg_types of
              TensorType shape dt # _ \<Rightarrow>
                Inr (Requantize (Cast output (DInt 32)) shape
                       (MakeConstantScalar (DFloat 32) (FloatVal (1 / 2 ^ nat const_bits)))
                       (const_i64 0) output_scale output_zero_point
                       (DInt (nat const_bits)) 0)
            | _ \<Rightarrow> Inl NullDereference))"

section \<open>Evaluation of expression graphs\<close>

text \<open>
  Modelled from the spec: the meaning of the primitive operations of a fragment (elementwise
  add, subtract, multiply, truncating divide, shifts, negation, reduction maximum and sum,
  cast, with broadcasting of axes of size 1), which the host compiler implements outside the
  sources. Integers of a \<open>b\<close>-bit element type are mathematical integers wrapped to
  \<open>b\<close> bits after every operation.
\<close>

subsection \<open>Tensors\<close>

text \<open>A tensor: its dimensions, and the element at each multi-index.\<close>

record tensor =
  dims :: "nat list"
  elem :: "nat list \<Rightarrow> int"

definition scalar_tensor :: "int \<Rightarrow> tensor" where
  "scalar_tensor v = \<lparr>dims = [], elem = (\<lambda>idx. v)\<rparr>"

definition valid_index :: "nat list \<Rightarrow> nat list \<Rightarrow> bool" where
  "valid_index ds idx = list_all2 (\<lambda>i d. i < d) idx ds"

text \<open>All multi-indices of a tensor of the given dimensions, in row-major order.\<close>

fun indices :: "nat list \<Rightarrow> nat list list" where
  "indices [] = [[]]"
| "indices (d # ds) = concat (map (\<lambda>i. map ((#) i) (indices ds)) [0..<d])"

text \<open>
  Broadcasting: the dimensions are aligned at the right; two dimensions are compatible when
  they are equal or one of them is 1.
\<close>

fun bshape_rev :: "nat list \<Rightarrow> nat list \<Rightarrow> nat list option" where
  "bshape_rev [] ys = Some ys"
| "bshape_rev (x # xs) [] = Some (x # xs)"
| "bshape_rev (x # xs) (y # ys) =
     (if x = y \<or> y = 1 then map_option ((#) x) (bshape_rev xs ys)
      else if x = 1 then map_option ((#) y) (bshape_rev xs ys)
      else None)"

definition bshape :: "nat list \<Rightarrow> nat list \<Rightarrow> nat list option" where
  "bshape xs ys = map_option rev (bshape_rev (rev xs) (rev ys))"

text \<open>The index at which an operand of dimensions \<open>ds\<close> is read for the result index.\<close>

definition bidx :: "nat list \<Rightarrow> nat list \<Rightarrow> nat list" where
  "bidx ds idx =
     map2 (\<lambda>d i. if d = 1 then 0 else i) ds (drop (length idx - length ds) idx)"

subsection \<open>Integer arithmetic of an element type\<close>

datatype eval_error =
    DivisionByZero | UndefinedShift | UndefinedCast | ShapeMismatch | AxisOutOfRange
  | DtypeMismatch | UnboundVar | Unsupported | ExternalPrimitive

fun bits_of :: "dtype \<Rightarrow> nat" where
  "bits_of (DInt b) = b"
| "bits_of (DUInt b) = b"
| "bits_of (DFloat b) = b"

fun is_int :: "dtype \<Rightarrow> bool" where
  "is_int (DFloat b) = False"
| "is_int dt = True"

fun wrap :: "dtype \<Rightarrow> int \<Rightarrow> int" where
  "wrap (DInt b) v = (v + 2 ^ (b - 1)) mod 2 ^ b - 2 ^ (b - 1)"
| "wrap (DUInt b) v = v mod 2 ^ b"
| "wrap (DFloat b) v = v"

fun min_value :: "dtype \<Rightarrow> int" where
  "min_value (DInt b) = - (2 ^ (b - 1))"
| "min_value dt = 0"

text \<open>Division truncating toward zero.\<close>

definition tdiv :: "int \<Rightarrow> int \<Rightarrow> int" where
  "tdiv a b = (if (a < 0) = (b < 0) then \<bar>a\<bar> div \<bar>b\<bar> else - (\<bar>a\<bar> div \<bar>b\<bar>))"

definition add_i :: "dtype \<Rightarrow> int \<Rightarrow> int \<Rightarrow> int" where
  "add_i dt a b = wrap dt (a + b)"

definition sub_i :: "dtype \<Rightarrow> int \<Rightarrow> int \<Rightarrow> int" where
  "sub_i dt a b = wrap dt (a - b)"

definition mul_i :: "dtype \<Rightarrow> int \<Rightarrow> int \<Rightarrow> int" where
  "mul_i dt a b = wrap dt (a * b)"

definition div_i :: "dtype \<Rightarrow> int \<Rightarrow> int \<Rightarrow> int" where
  "div_i dt a b = wrap dt (tdiv a b)"

text \<open>
  Shifts: the left shift multiplies by a power of two and wraps, the right shift is
  arithmetic (it rounds toward minus infinity). A shift is defined for an amount from 0
  up to the width of the element type, exclusive.
\<close>

definition shl_i :: "dtype \<Rightarrow> int \<Rightarrow> int \<Rightarrow> int" where
  "shl_i dt a b = wrap dt (a * 2 ^ nat b)"

definition shr_i :: "dtype \<Rightarrow> int \<Rightarrow> int \<Rightarrow> int" where
  "shr_i dt a b = a div 2 ^ nat b"

definition always :: "dtype \<Rightarrow> int \<Rightarrow> int \<Rightarrow> bool" where
  "always dt a b = True"

definition divisor_ok :: "dtype \<Rightarrow> int \<Rightarrow> int \<Rightarrow> bool" where
  "divisor_ok dt a b = (b \<noteq> 0)"

definition shift_ok :: "dtype \<Rightarrow> int \<Rightarrow> int \<Rightarrow> bool" where
  "shift_ok dt a b = (0 \<le> b \<and> b < int (bits_of dt))"

subsection \<open>Operations on tensors\<close>

text \<open>
  An elementwise binary operation with broadcasting. It fails with \<open>err\<close> when the
  operation is undefined at some element.
\<close>

definition pointwise2 ::
  "(int \<Rightarrow> int \<Rightarrow> bool) \<Rightarrow> eval_error \<Rightarrow> (int \<Rightarrow> int \<Rightarrow> int) \<Rightarrow> tensor \<Rightarrow> tensor
     \<Rightarrow> eval_error + tensor" where
  "pointwise2 defined err f a b =
     (case bshape (dims a) (dims b) of
        None \<Rightarrow> Inl ShapeMismatch
      | Some s \<Rightarrow>
          if list_all (\<lambda>idx. defined (elem a (bidx (dims a) idx)) (elem b (bidx (dims b) idx)))
               (indices s)
          then Inr \<lparr>dims = s,
                    elem = (\<lambda>idx. f (elem a (bidx (dims a) idx)) (elem b (bidx (dims b) idx)))\<rparr>
          else Inl err)"

definition pointwise1 :: "(int \<Rightarrow> int) \<Rightarrow> tensor \<Rightarrow> tensor" where
  "pointwise1 f a = \<lparr>dims = dims a, elem = (\<lambda>idx. f (elem a idx))\<rparr>"

text \<open>A negative axis counts from the last dimension.\<close>

definition real_axis :: "nat \<Rightarrow> int \<Rightarrow> nat option" where
  "real_axis rank ax =
     (if 0 \<le> ax \<and> ax < int rank then Some (nat ax)
      else if - int rank \<le> ax \<and> ax < 0 then Some (nat (ax + int rank))
      else None)"

text \<open>
  Reduction along one axis, which is kept with size 1: the elements along the axis are
  combined by \<open>f\<close>, starting from \<open>init\<close>.
\<close>

definition reduce_keepdims :: "(int \<Rightarrow> int \<Rightarrow> int) \<Rightarrow> int \<Rightarrow> int \<Rightarrow> tensor \<Rightarrow> eval_error + tensor" where
  "reduce_keepdims f init ax a =
     (case real_axis (length (dims a)) ax of
        None \<Rightarrow> Inl AxisOutOfRange
      | Some k \<Rightarrow>
          Inr \<lparr>dims = (dims a)[k := 1],
               elem = (\<lambda>idx. foldr f (map (\<lambda>j. elem a (idx[k := j])) [0..<dims a ! k]) init)\<rparr>)"

definition reduce_max :: "dtype \<Rightarrow> int \<Rightarrow> tensor \<Rightarrow> eval_error + tensor" where
  "reduce_max dt ax a = reduce_keepdims max (min_value dt) ax a"

definition reduce_sum :: "dtype \<Rightarrow> int \<Rightarrow> tensor \<Rightarrow> eval_error + tensor" where
  "reduce_sum dt ax a = reduce_keepdims (add_i dt) 0 ax a"

subsection \<open>Values and floating point\<close>

text \<open>
  The quantization scales are single-precision scalars. Their arithmetic is a parameter of
  the evaluation: the value of a constant, division, rounding to an integral value, and the
  conversion to an integer, which is undefined for a value that has none.
\<close>

record 'f float_ops =
  f_const :: "rat \<Rightarrow> 'f"
  f_div :: "'f \<Rightarrow> 'f \<Rightarrow> 'f"
  f_round :: "'f \<Rightarrow> 'f"
  f_to_int :: "'f \<Rightarrow> int option"

datatype 'f val = VTensor dtype tensor | VFloat 'f

definition const_val :: "'f float_ops \<Rightarrow> dtype \<Rightarrow> scalar_val \<Rightarrow> eval_error + 'f val" where
  "const_val fs dt c =
     (case c of
        IntVal v \<Rightarrow>
          if is_int dt then Inr (VTensor dt (scalar_tensor (wrap dt v))) else Inl DtypeMismatch
      | FloatVal r \<Rightarrow>
          if dt = DFloat 32 then Inr (VFloat (f_const fs r)) else Inl DtypeMismatch)"

text \<open>
  A cast between integer types wraps to the target width; a cast of a floating-point
  scalar to an integer type converts it.
\<close>

definition cast_val :: "'f float_ops \<Rightarrow> 'f val \<Rightarrow> dtype \<Rightarrow> eval_error + 'f val" where
  "cast_val fs v dt =
     (case v of
        VTensor d a \<Rightarrow>
          if is_int dt then Inr (VTensor dt (pointwise1 (wrap dt) a)) else Inl Unsupported
      | VFloat x \<Rightarrow>
          if is_int dt then
            (case f_to_int fs x of
               None \<Rightarrow> Inl UndefinedCast
             | Some i \<Rightarrow> Inr (VTensor dt (scalar_tensor (wrap dt i))))
          else Inr (VFloat x))"

text \<open>A binary integer operation: both operands are tensors of the same integer type.\<close>

definition int_binop ::
  "(dtype \<Rightarrow> int \<Rightarrow> int \<Rightarrow> bool) \<Rightarrow> eval_error \<Rightarrow> (dtype \<Rightarrow> int \<Rightarrow> int \<Rightarrow> int)
     \<Rightarrow> 'f val \<Rightarrow> 'f val \<Rightarrow> eval_error + 'f val" where
  "int_binop defined err f va vb =
     (case (va, vb) of
        (VTensor da a, VTensor db b) \<Rightarrow>
          if da = db \<and> is_int da then
            (case pointwise2 (defined da) err (f da) a b of
               Inl e \<Rightarrow> Inl e
             | Inr c \<Rightarrow> Inr (VTensor da c))
          else Inl DtypeMismatch
      | _ \<Rightarrow> Inl DtypeMismatch)"

definition divide_val :: "'f float_ops \<Rightarrow> 'f val \<Rightarrow> 'f val \<Rightarrow> eval_error + 'f val" where
  "divide_val fs va vb =
     (case (va, vb) of
        (VFloat x, VFloat y) \<Rightarrow> Inr (VFloat (f_div fs x y))
      | _ \<Rightarrow> int_binop divisor_ok DivisionByZero div_i va vb)"

definition negative_val :: "'f val \<Rightarrow> eval_error + 'f val" where
  "negative_val v =
     (case v of
        VTensor d a \<Rightarrow>
          if is_int d then Inr (VTensor d (pointwise1 (\<lambda>i. wrap d (- i)) a))
          else Inl DtypeMismatch
      | VFloat x \<Rightarrow> Inl Unsupported)"

definition round_val :: "'f float_ops \<Rightarrow> 'f val \<Rightarrow> eval_error + 'f val" where
  "round_val fs v =
     (case v of VTensor d a \<Rightarrow> Inl Unsupported | VFloat x \<Rightarrow> Inr (VFloat (f_round fs x)))"

text \<open>
  The reductions of a fragment have one axis, keep it and do not exclude it; no other form
  is evaluated.
\<close>

definition reduce_val ::
  "(dtype \<Rightarrow> int \<Rightarrow> tensor \<Rightarrow> eval_error + tensor) \<Rightarrow> 'f val \<Rightarrow> int list \<Rightarrow> bool \<Rightarrow> bool
     \<Rightarrow> eval_error + 'f val" where
  "reduce_val red v axes keepdims exclude =
     (case v of
        VTensor d a \<Rightarrow>
          (case axes of
             [ax] \<Rightarrow>
               if keepdims \<and> \<not> exclude \<and> is_int d then
                 (case red d ax a of Inl e \<Rightarrow> Inl e | Inr c \<Rightarrow> Inr (VTensor d c))
               else Inl Unsupported
           | _ \<Rightarrow> Inl Unsupported)
      | VFloat x \<Rightarrow> Inl Unsupported)"

text \<open>Sequencing of two evaluations: the first error is the result.\<close>

definition bind2 ::
  "eval_error + 'a \<Rightarrow> eval_error + 'b \<Rightarrow> ('a \<Rightarrow> 'b \<Rightarrow> eval_error + 'c) \<Rightarrow> eval_error + 'c" where
  "bind2 ra rb k =
     (case ra of Inl e \<Rightarrow> Inl e | Inr a \<Rightarrow> (case rb of Inl e \<Rightarrow> Inl e | Inr b \<Rightarrow> k a b))"

definition bind1 :: "eval_error + 'a \<Rightarrow> ('a \<Rightarrow> eval_error + 'c) \<Rightarrow> eval_error + 'c" where
  "bind1 ra k = (case ra of Inl e \<Rightarrow> Inl e | Inr a \<Rightarrow> k a)"

text \<open>
  Modelled from the spec: the value of an expression, which the host compiler computes
  outside the sources, the operands being given by the environment. Each node applies its
  primitive operation to the values of its arguments, evaluated from left to right; the
  first error is the result. The external requantization primitive is not evaluated.
\<close>

fun eval :: "'f float_ops \<Rightarrow> (string \<Rightarrow> 'f val option) \<Rightarrow> Expr \<Rightarrow> eval_error + 'f val" where
  "eval fs env (Var v) = (case env v of None \<Rightarrow> Inl UnboundVar | Some x \<Rightarrow> Inr x)"
| "eval fs env (Constant dt c) = const_val fs dt c"
| "eval fs env (Cast e dt) = bind1 (eval fs env e) (\<lambda>v. cast_val fs v dt)"
| "eval fs env (Add a b) =
     bind2 (eval fs env a) (eval fs env b) (int_binop always Unsupported add_i)"
| "eval fs env (Subtract a b) =
     bind2 (eval fs env a) (eval fs env b) (int_binop always Unsupported sub_i)"
| "eval fs env (Multiply a b) =
     bind2 (eval fs env a) (eval fs env b) (int_binop always Unsupported mul_i)"
| "eval fs env (Divide a b) = bind2 (eval fs env a) (eval fs env b) (divide_val fs)"
| "eval fs env (LeftShift a b) =
     bind2 (eval fs env a) (eval fs env b) (int_binop shift_ok UndefinedShift shl_i)"
| "eval fs env (RightShift a b) =
     bind2 (eval fs env a) (eval fs env b) (int_binop shift_ok UndefinedShift shr_i)"
| "eval fs env (Negative e) = bind1 (eval fs env e) negative_val"
| "eval fs env (Round e) = bind1 (eval fs env e) (round_val fs)"
| "eval fs env (Max_op e axes keepdims exclude) =
     bind1 (eval fs env e) (\<lambda>v. reduce_val reduce_max v axes keepdims exclude)"
| "eval fs env (Sum e axes keepdims exclude) =
     bind1 (eval fs env e) (\<lambda>v. reduce_val reduce_sum v axes keepdims exclude)"
| "eval fs env (Requantize e shape s z s' z' dt ax) = Inl ExternalPrimitive"

text \<open>
  Exact rational arithmetic for the scales. It agrees with single precision wherever the
  operands and every result are representable, as they are for the scales \<open>1 / 256\<close>,
  \<open>1\<close>, \<open>4\<close> and \<open>8\<close> used below. Rounding is to the nearest integer, the conversion
  truncates.
\<close>

definition exact_ops :: "rat float_ops" where
  "exact_ops =
     \<lparr>f_const = (\<lambda>r. r),
      f_div = (\<lambda>a b. a / b),
      f_round = (\<lambda>a. of_int (if 0 \<le> a then \<lfloor>a + 1 / 2\<rfloor> else \<lceil>a - 1 / 2\<rceil>)),
      f_to_int = (\<lambda>a. Some (if 0 \<le> a then \<lfloor>a\<rfloor> else \<lceil>a\<rceil>))\<rparr>"

text \<open>A one-dimensional tensor with the given elements.\<close>

definition vector :: "int list \<Rightarrow> tensor" where
  "vector xs = \<lparr>dims = [length xs], elem = (\<lambda>idx. xs ! hd idx)\<rparr>"

text \<open>The environment binding the data, the input scale and the input zero point.\<close>

definition operands :: "tensor \<Rightarrow> rat \<Rightarrow> int \<Rightarrow> string \<Rightarrow> rat val option" where
  "operands d s z =
     [''data'' \<mapsto> VTensor (DInt 8) d, ''scale'' \<mapsto> VFloat s,
      ''zero_point'' \<mapsto> VTensor (DInt 32) (scalar_tensor z)]"

section \<open>The integer sequence of the algorithm\<close>

text \<open>
  The sequence of the specification, written directly on tensors in the 64-bit signed
  domain with the constants \<open>n = 30\<close>, \<open>m = 60\<close> and \<open>bits = 8\<close>: centered, shifted by
  the maximum along the axis, adjusted by two right shifts, divided by the negated reciprocal
  scale with explicit remainder, the exponent approximation by an elementwise left shift, its
  sum along the axis and the normalized value shifted down to \<open>bits\<close> fractional bits.
\<close>

definition t_add :: "tensor \<Rightarrow> tensor \<Rightarrow> eval_error + tensor" where
  "t_add a b = pointwise2 (always (DInt 64)) Unsupported (add_i (DInt 64)) a b"

definition t_sub :: "tensor \<Rightarrow> tensor \<Rightarrow> eval_error + tensor" where
  "t_sub a b = pointwise2 (always (DInt 64)) Unsupported (sub_i (DInt 64)) a b"

definition t_mul :: "tensor \<Rightarrow> tensor \<Rightarrow> eval_error + tensor" where
  "t_mul a b = pointwise2 (always (DInt 64)) Unsupported (mul_i (DInt 64)) a b"

definition t_div :: "tensor \<Rightarrow> tensor \<Rightarrow> eval_error + tensor" where
  "t_div a b = pointwise2 (divisor_ok (DInt 64)) DivisionByZero (div_i (DInt 64)) a b"

definition t_shl :: "tensor \<Rightarrow> tensor \<Rightarrow> eval_error + tensor" where
  "t_shl a b = pointwise2 (shift_ok (DInt 64)) UndefinedShift (shl_i (DInt 64)) a b"

definition t_shr :: "tensor \<Rightarrow> tensor \<Rightarrow> eval_error + tensor" where
  "t_shr a b = pointwise2 (shift_ok (DInt 64)) UndefinedShift (shr_i (DInt 64)) a b"

definition int64 :: "tensor \<Rightarrow> tensor" where
  "int64 a = pointwise1 (wrap (DInt 64)) a"

definition i64 :: "int \<Rightarrow> tensor" where
  "i64 v = scalar_tensor (wrap (DInt 64) v)"

text \<open>The reciprocal-scale constant \<open>x0 = int64(round(1 / scale_in))\<close>.\<close>

definition reciprocal_scale :: "'f float_ops \<Rightarrow> 'f \<Rightarrow> eval_error + tensor" where
  "reciprocal_scale fs scale_in =
     (case f_to_int fs (f_round fs (f_div fs (f_const fs 1) scale_in)) of
        None \<Rightarrow> Inl UndefinedCast
      | Some v \<Rightarrow> Inr (i64 v))"

text \<open>Steps 1, 2 and 4 to 6: widen, center, subtract the maximum, adjust.\<close>

definition adjusted_spec :: "int \<Rightarrow> tensor \<Rightarrow> tensor \<Rightarrow> eval_error + tensor" where
  "adjusted_spec ax data zero_point_in =
     bind1 (t_sub (int64 data) (int64 zero_point_in)) (\<lambda>centered.
     bind1 (reduce_max (DInt 64) ax centered) (\<lambda>mx.
     bind1 (t_sub centered mx) (\<lambda>shifted.
     bind1 (t_shr shifted (i64 1)) (\<lambda>half.
     bind1 (t_add shifted half) (\<lambda>shifted_plus.
     bind1 (t_shr shifted (i64 4)) (\<lambda>sixteenth.
     t_sub shifted_plus sixteenth))))))"

text \<open>
  Steps 3 and 7 to 9: quotient and remainder by the negated reciprocal scale, the
  fractional term, and the elementwise left shift by \<open>n - q\<close>.
\<close>

definition exp_approx_spec :: "'f float_ops \<Rightarrow> 'f \<Rightarrow> tensor \<Rightarrow> eval_error + tensor" where
  "exp_approx_spec fs scale_in adjusted =
     bind1 (reciprocal_scale fs scale_in) (\<lambda>x0.
     bind1 (t_div adjusted (int64 (pointwise1 uminus x0))) (\<lambda>q.
     bind1 (t_mul q (int64 (pointwise1 uminus x0))) (\<lambda>qx.
     bind1 (t_sub adjusted qx) (\<lambda>r.
     bind1 (t_shr r (i64 1)) (\<lambda>r_half.
     bind1 (t_add r_half x0) (\<lambda>base.
     bind1 (t_sub (i64 30) q) (\<lambda>amount.
     t_shl base amount)))))))"

text \<open>Steps 10 and 11: the sum along the axis, and the normalized, rescaled output.\<close>

definition output_wide_spec :: "int \<Rightarrow> tensor \<Rightarrow> eval_error + tensor" where
  "output_wide_spec ax exp_approx =
     bind1 (reduce_sum (DInt 64) ax exp_approx) (\<lambda>sum_exp.
     bind1 (t_div (i64 (2 ^ 60)) sum_exp) (\<lambda>recip.
     bind1 (t_mul recip exp_approx) (\<lambda>scaled.
     t_shr scaled (i64 (60 - 8)))))"

definition softmax_spec ::
  "'f float_ops \<Rightarrow> int \<Rightarrow> tensor \<Rightarrow> 'f \<Rightarrow> tensor \<Rightarrow> eval_error + tensor" where
  "softmax_spec fs ax data scale_in zero_point_in =
     bind1 (adjusted_spec ax data zero_point_in) (\<lambda>adjusted.
     bind1 (exp_approx_spec fs scale_in adjusted) (\<lambda>exp_approx.
     output_wide_spec ax exp_approx))"

text \<open>
  An evaluation yields a tensor of the given element type and dimensions whose elements
  are given by \<open>g\<close>.
\<close>

definition yields ::
  "eval_error + 'f val \<Rightarrow> dtype \<Rightarrow> nat list \<Rightarrow> (nat list \<Rightarrow> int) \<Rightarrow> bool" where
  "yields r dt ds g =
     (\<exists>t. r = Inr (VTensor dt t) \<and> dims t = ds
        \<and> (\<forall>idx. valid_index ds idx \<longrightarrow> elem t idx = g idx))"

text \<open>An integer result read as a value of element type \<^verbatim>\<open>Int(64)\<close>.\<close>

definition lift64 :: "eval_error + tensor \<Rightarrow> eval_error + 'f val" where
  "lift64 r = (case r of Inl e \<Rightarrow> Inl e | Inr t \<Rightarrow> Inr (VTensor (DInt 64) t))"

subsection \<open>The steps at one element\<close>

text \<open>
  The elements along axis \<open>k\<close> (of size \<open>n\<close>) through the index \<open>idx\<close>, and the value
  of each step at one element, as functions of the operand's elements \<open>g\<close>, the zero point
  \<open>zv\<close> and the reciprocal scale \<open>x0\<close>.
\<close>

definition line :: "nat \<Rightarrow> nat \<Rightarrow> (nat list \<Rightarrow> int) \<Rightarrow> nat list \<Rightarrow> int list" where
  "line k n g idx = map (\<lambda>j. g (idx[k := j])) [0..<n]"

definition centered_at :: "(nat list \<Rightarrow> int) \<Rightarrow> int \<Rightarrow> nat list \<Rightarrow> int" where
  "centered_at g zv idx = sub_i (DInt 64) (wrap (DInt 64) (g idx)) (wrap (DInt 64) zv)"

definition shifted_at :: "(nat list \<Rightarrow> int) \<Rightarrow> int \<Rightarrow> nat \<Rightarrow> nat \<Rightarrow> nat list \<Rightarrow> int" where
  "shifted_at g zv k n idx =
     sub_i (DInt 64) (centered_at g zv idx)
       (foldr max (line k n (centered_at g zv) idx) (min_value (DInt 64)))"

definition adjusted_val :: "int \<Rightarrow> int" where
  "adjusted_val x =
     sub_i (DInt 64) (add_i (DInt 64) x (shr_i (DInt 64) x 1)) (shr_i (DInt 64) x 4)"

definition q_val :: "int \<Rightarrow> int \<Rightarrow> int" where
  "q_val xp x0 = div_i (DInt 64) xp (wrap (DInt 64) (- x0))"

definition base_val :: "int \<Rightarrow> int \<Rightarrow> int" where
  "base_val xp x0 =
     add_i (DInt 64)
       (shr_i (DInt 64)
          (sub_i (DInt 64) xp (mul_i (DInt 64) (q_val xp x0) (wrap (DInt 64) (- x0)))) 1)
       x0"

definition exp_val :: "int \<Rightarrow> int \<Rightarrow> int" where
  "exp_val xp x0 = shl_i (DInt 64) (base_val xp x0) (sub_i (DInt 64) 30 (q_val xp x0))"

definition out_val :: "int \<Rightarrow> int \<Rightarrow> int" where
  "out_val e s = shr_i (DInt 64) (mul_i (DInt 64) (div_i (DInt 64) (2 ^ 60) s) e) 52"

section \<open>Element types of a fragment\<close>

text \<open>
  Modelled from the spec: the element type of an expression, as the host compiler's type
  inference assigns it outside the sources. A cast has its target type, a constant its own,
  a binary operation the common type of its operands, a unary operation or a reduction the
  type of its operand, the requantization its output type.
\<close>

fun dtype_of :: "(string \<Rightarrow> dtype option) \<Rightarrow> Expr \<Rightarrow> dtype option" where
  "dtype_of \<Gamma> (Var v) = \<Gamma> v"
| "dtype_of \<Gamma> (Constant dt c) = Some dt"
| "dtype_of \<Gamma> (Cast e dt) = (case dtype_of \<Gamma> e of None \<Rightarrow> None | Some d \<Rightarrow> Some dt)"
| "dtype_of \<Gamma> (Add a b) = (if dtype_of \<Gamma> a = dtype_of \<Gamma> b then dtype_of \<Gamma> a else None)"
| "dtype_of \<Gamma> (Subtract a b) = (if dtype_of \<Gamma> a = dtype_of \<Gamma> b then dtype_of \<Gamma> a else None)"
| "dtype_of \<Gamma> (Multiply a b) = (if dtype_of \<Gamma> a = dtype_of \<Gamma> b then dtype_of \<Gamma> a else None)"
| "dtype_of \<Gamma> (Divide a b) = (if dtype_of \<Gamma> a = dtype_of \<Gamma> b then dtype_of \<Gamma> a else None)"
| "dtype_of \<Gamma> (LeftShift a b) = (if dtype_of \<Gamma> a = dtype_of \<Gamma> b then dtype_of \<Gamma> a else None)"
| "dtype_of \<Gamma> (RightShift a b) = (if dtype_of \<Gamma> a = dtype_of \<Gamma> b then dtype_of \<Gamma> a else None)"
| "dtype_of \<Gamma> (Negative e) = dtype_of \<Gamma> e"
| "dtype_of \<Gamma> (Round e) = dtype_of \<Gamma> e"
| "dtype_of \<Gamma> (Max_op e axes keepdims exclude) = dtype_of \<Gamma> e"
| "dtype_of \<Gamma> (Sum e axes keepdims exclude) = dtype_of \<Gamma> e"
| "dtype_of \<Gamma> (Requantize e shape s z s' z' dt ax) =
     (case dtype_of \<Gamma> e of None \<Rightarrow> None | Some d \<Rightarrow> Some dt)"

text \<open>The cast nodes and the constant nodes that occur in an expression.\<close>

fun casts_of :: "Expr \<Rightarrow> Expr set" where
  "casts_of (Var v) = {}"
| "casts_of (Constant dt c) = {}"
| "casts_of (Cast e dt) = insert (Cast e dt) (casts_of e)"
| "casts_of (Add a b) = casts_of a \<union> casts_of b"
| "casts_of (Subtract a b) = casts_of a \<union> casts_of b"
| "casts_of (Multiply a b) = casts_of a \<union> casts_of b"
| "casts_of (Divide a b) = casts_of a \<union> casts_of b"
| "casts_of (LeftShift a b) = casts_of a \<union> casts_of b"
| "casts_of (RightShift a b) = casts_of a \<union> casts_of b"
| "casts_of (Negative e) = casts_of e"
| "casts_of (Round e) = casts_of e"
| "casts_of (Max_op e axes keepdims exclude) = casts_of e"
| "casts_of (Sum e axes keepdims exclude) = casts_of e"
| "casts_of (Requantize e shape s z s' z' dt ax) =
     casts_of e \<union> casts_of s \<union> casts_of z \<union> casts_of s' \<union> casts_of z'"

fun constants_of :: "Expr \<Rightarrow> Expr set" where
  "constants_of (Var v) = {}"
| "constants_of (Constant dt c) = {Constant dt c}"
| "constants_of (Cast e dt) = constants_of e"
| "constants_of (Add a b) = constants_of a \<union> constants_of b"
| "constants_of (Subtract a b) = constants_of a \<union> constants_of b"
| "constants_of (Multiply a b) = constants_of a \<union> constants_of b"
| "constants_of (Divide a b) = constants_of a \<union> constants_of b"
| "constants_of (LeftShift a b) = constants_of a \<union> constants_of b"
| "constants_of (RightShift a b) = constants_of a \<union> constants_of b"
| "constants_of (Negative e) = constants_of e"
| "constants_of (Round e) = constants_of e"
| "constants_of (Max_op e axes keepdims exclude) = constants_of e"
| "constants_of (Sum e axes keepdims exclude) = constants_of e"
| "constants_of (Requantize e shape s z s' z' dt ax) =
     constants_of e \<union> constants_of s \<union> constants_of z \<union> constants_of s' \<union> constants_of z'"

text \<open>
  The nodes of an expression, the expression itself included, and the property that a node
  is one of the given nodes or has the element type \<^verbatim>\<open>Int(64)\<close>.
\<close>

fun subexprs :: "Expr \<Rightarrow> Expr set" where
  "subexprs (Var v) = {Var v}"
| "subexprs (Constant dt c) = {Constant dt c}"
| "subexprs (Cast e dt) = insert (Cast e dt) (subexprs e)"
| "subexprs (Add a b) = insert (Add a b) (subexprs a \<union> subexprs b)"
| "subexprs (Subtract a b) = insert (Subtract a b) (subexprs a \<union> subexprs b)"
| "subexprs (Multiply a b) = insert (Multiply a b) (subexprs a \<union> subexprs b)"
| "subexprs (Divide a b) = insert (Divide a b) (subexprs a \<union> subexprs b)"
| "subexprs (LeftShift a b) = insert (LeftShift a b) (subexprs a \<union> subexprs b)"
| "subexprs (RightShift a b) = insert (RightShift a b) (subexprs a \<union> subexprs b)"
| "subexprs (Negative e) = insert (Negative e) (subexprs e)"
| "subexprs (Round e) = insert (Round e) (subexprs e)"
| "subexprs (Max_op e axes keepdims exclude) = insert (Max_op e axes keepdims exclude) (subexprs e)"
| "subexprs (Sum e axes keepdims exclude) = insert (Sum e axes keepdims exclude) (subexprs e)"
| "subexprs (Requantize e shape s z s' z' dt ax) =
     insert (Requantize e shape s z s' z' dt ax)
       (subexprs e \<union> subexprs s \<union> subexprs z \<union> subexprs s' \<union> subexprs z')"

definition int64_or_given :: "(string \<Rightarrow> dtype option) \<Rightarrow> Expr set \<Rightarrow> Expr \<Rightarrow> bool" where
  "int64_or_given \<Gamma> given e = (e \<in> given \<or> dtype_of \<Gamma> e = Some (DInt 64))"

text \<open>
  Reading a fragment: the wide output is the expression whose cast is the data argument of
  the requantization, and the exponent approximation is the second factor of the product
  that the wide output shifts right.
\<close>

fun wide_output :: "Expr \<Rightarrow> Expr option" where
  "wide_output (Requantize (Cast e dt) shape s z s' z' dt' ax) = Some e"
| "wide_output e = None"

fun exp_approx :: "Expr \<Rightarrow> Expr option" where
  "exp_approx (RightShift (Multiply a e) c) = Some e"
| "exp_approx e = None"

declare wrap.simps [simp del]

section \<open>Properties of the validator\<close>

lemma upt_1_5: "[Suc 0..<5] = [1, 2, 3, 4]"
  by (simp add: upt_rec)

text \<open>
  Claim C5, as stated, fails: with an \<^verbatim>\<open>int8\<close> input tensor and a scale of shape
  \<open>[2]\<close>, while the input zero point is still unresolved, the validator returns the
  non-fatal unresolved result and assigns nothing.
\<close>

theorem nonscalar_scale_unresolved_counterexample:
  "QnnSoftmaxRel
     [TensorType [IntImm 2, IntImm 3] (DInt 8), TensorType [IntImm 2] (DFloat 32),
      IncompleteType, TensorType [] (DFloat 32), TensorType [] (DInt 32), IncompleteType]
     5 \<lparr>axis = 1\<rparr>
   = Inr (False,
       [TensorType [IntImm 2, IntImm 3] (DInt 8), TensorType [IntImm 2] (DFloat 32),
        IncompleteType, TensorType [] (DFloat 32), TensorType [] (DInt 32), IncompleteType])"
  by (simp add: QnnSoftmaxRel_def upt_1_5)

text \<open>
  Claim C5, amended. An input tensor type with element type \<^verbatim>\<open>uint8\<close> is a fatal
  violation for slot 0. A scale of rank other than 0 is fatal when the input is a tensor
  type and none of the other three quantization parameters is unresolved: for an
  \<^verbatim>\<open>int8\<close> input it is the violation for slot 1. With an \<^verbatim>\<open>int8\<close> input and one of
  the other three parameters still unresolved, the validator returns the unresolved result
  instead, whatever the scale.
\<close>

theorem validator_rejects_uint8_and_nonscalar_scale:
  "QnnSoftmaxRel [TensorType shape (DUInt 8), t1, t2, t3, t4, t5] num_inputs attrs
     = Inl (TypeContractViolation 0)
   \<and> (shape1 \<noteq> [] \<and> t2 \<noteq> IncompleteType \<and> t3 \<noteq> IncompleteType \<and> t4 \<noteq> IncompleteType \<longrightarrow>
        QnnSoftmaxRel [TensorType shape (DInt 8), TensorType shape1 dt1, t2, t3, t4, t5]
          num_inputs attrs = Inl (TypeContractViolation 1)
        \<and> isl (QnnSoftmaxRel [TensorType shape dt, TensorType shape1 dt1, t2, t3, t4, t5]
               num_inputs attrs))
   \<and> (t2 = IncompleteType \<or> t3 = IncompleteType \<or> t4 = IncompleteType \<longrightarrow>
        QnnSoftmaxRel [TensorType shape (DInt 8), TensorType shape1 dt1, t2, t3, t4, t5]
          num_inputs attrs
        = Inr (False, [TensorType shape (DInt 8), TensorType shape1 dt1, t2, t3, t4, t5]))"
  by (auto simp: QnnSoftmaxRel_def upt_1_5 IsScalarType_def)

theorem validator_rejects_witness:
  "QnnSoftmaxRel
     [TensorType [IntImm 2, IntImm 3] (DInt 8), TensorType [IntImm 2] (DFloat 32),
      TensorType [] (DInt 32), TensorType [] (DFloat 32), TensorType [] (DInt 32),
      IncompleteType] 5 \<lparr>axis = 1\<rparr> = Inl (TypeContractViolation 1)
   \<and> QnnSoftmaxRel
     [TensorType [IntImm 2, IntImm 3] (DInt 8), TensorType [IntImm 2] (DFloat 32),
      TensorType [] (DInt 32), IncompleteType, TensorType [] (DInt 32),
      IncompleteType] 5 \<lparr>axis = 1\<rparr>
     = Inr (False,
         [TensorType [IntImm 2, IntImm 3] (DInt 8), TensorType [IntImm 2] (DFloat 32),
          TensorType [] (DInt 32), IncompleteType, TensorType [] (DInt 32), IncompleteType])"
  using validator_rejects_uint8_and_nonscalar_scale
    [where ?shape1.0 = "[IntImm 2]" and ?t2.0 = "TensorType [] (DInt 32)"
       and ?t3.0 = "TensorType [] (DFloat 32)" and ?t4.0 = "TensorType [] (DInt 32)"
       and shape = "[IntImm 2, IntImm 3]" and ?t5.0 = IncompleteType and num_inputs = 5
       and attrs = "\<lparr>axis = 1\<rparr>" and ?dt1.0 = "DFloat 32"]
    validator_rejects_uint8_and_nonscalar_scale
    [where ?shape1.0 = "[IntImm 2]" and ?t2.0 = "TensorType [] (DInt 32)"
       and ?t3.0 = IncompleteType and ?t4.0 = "TensorType [] (DInt 32)"
       and shape = "[IntImm 2, IntImm 3]" and ?t5.0 = IncompleteType and num_inputs = 5
       and attrs = "\<lparr>axis = 1\<rparr>" and ?dt1.0 = "DFloat 32"]
  by simp

text \<open>
  Claim C6, as stated, fails: a first element that is a tensor type with an element type
  other than \<^verbatim>\<open>int8\<close> raises the fatal violation for slot 0 instead of returning false.
\<close>

theorem non_int8_tensor_is_fatal_counterexample:
  "QnnSoftmaxRel
     [TensorType [IntImm 3] (DUInt 8), TensorType [] (DFloat 32), TensorType [] (DInt 32),
      TensorType [] (DFloat 32), TensorType [] (DInt 32), IncompleteType] 5 \<lparr>axis = 0\<rparr>
   = Inl (TypeContractViolation 0)"
  by (simp add: QnnSoftmaxRel_def)

text \<open>
  Claim C6, amended. For a list of six types: when the first element is not a tensor type,
  the validator returns false without raising and assigns nothing; when it is a tensor type
  whose element type is not \<^verbatim>\<open>int8\<close>, the validator raises the fatal violation for slot 0.
\<close>

theorem validator_first_slot:
  "length types = 6 \<Longrightarrow>
   ((\<forall>shape dt. types ! 0 \<noteq> TensorType shape dt) \<longrightarrow>
      QnnSoftmaxRel types num_inputs attrs = Inr (False, types))
   \<and> (\<forall>shape dt. types ! 0 = TensorType shape dt \<and> dt \<noteq> DInt 8 \<longrightarrow>
      QnnSoftmaxRel types num_inputs attrs = Inl (TypeContractViolation 0))"
  by (cases "types ! 0") (simp_all add: QnnSoftmaxRel_def)

theorem validator_first_slot_witness:
  "QnnSoftmaxRel
     [IncompleteType, IncompleteType, IncompleteType, IncompleteType, IncompleteType,
      IncompleteType] 5 \<lparr>axis = 0\<rparr>
     = Inr (False,
         [IncompleteType, IncompleteType, IncompleteType, IncompleteType, IncompleteType,
          IncompleteType])
   \<and> QnnSoftmaxRel
       [TensorType [] (DFloat 32), IncompleteType, IncompleteType, IncompleteType,
        IncompleteType, IncompleteType] 5 \<lparr>axis = 0\<rparr>
     = Inl (TypeContractViolation 0)"
  using validator_first_slot
     [of "[IncompleteType, IncompleteType, IncompleteType, IncompleteType, IncompleteType,
           IncompleteType]" 5 "\<lparr>axis = 0\<rparr>"]
    validator_first_slot
     [of "[TensorType [] (DFloat 32), IncompleteType, IncompleteType, IncompleteType,
           IncompleteType, IncompleteType]" 5 "\<lparr>axis = 0\<rparr>"]
  by simp

lemma IdentityRel_Inr:
  "IdentityRel [TensorType shape dt, out] k attrs = Inr (ok, resolved) \<Longrightarrow>
   ok \<and> (\<exists>dt'. resolved = [TensorType shape dt, TensorType shape dt'])
      \<and> (out = IncompleteType \<or> resolved ! 1 = out)"
  by (cases out) (auto split: if_splits)

text \<open>
  Claim C8. When the validator succeeds, the input is an \<^verbatim>\<open>int8\<close> tensor type that is
  left as it is, the resolved output type has the input's shape, the pair of input and
  output type is exactly what the identity-shape rule returns for them, and an output type
  that was already resolved is unchanged, so that its element type is not overridden.
\<close>

theorem validator_output_shape:
  assumes "QnnSoftmaxRel types num_inputs attrs = Inr (True, resolved)"
  shows "\<exists>shape dt'. types ! 0 = TensorType shape (DInt 8) \<and> resolved ! 0 = types ! 0
           \<and> resolved ! 5 = TensorType shape dt'
           \<and> (types ! 5 = IncompleteType \<or> resolved ! 5 = types ! 5)
           \<and> IdentityRel [types ! 0, types ! 5] 2 attrs
               = Inr (True, [resolved ! 0, resolved ! 5])"
proof -
  from assms have len: "length types = 6"
    by (auto simp: QnnSoftmaxRel_def split: if_splits)
  from assms len obtain shape where t0: "types ! 0 = TensorType shape (DInt 8)"
    by (cases "types ! 0") (auto simp: QnnSoftmaxRel_def split: if_splits)
  from assms len t0 obtain ok rs where
    idr: "IdentityRel [TensorType shape (DInt 8), types ! 5] 2 attrs = Inr (ok, rs)" and
    res: "resolved ! 0 = rs ! 0" "resolved ! 5 = rs ! 1" and ok: "ok"
    by (auto simp: QnnSoftmaxRel_def Let_def split: if_splits sum.splits)
  from IdentityRel_Inr [OF idr] obtain dt' where
    rs: "rs = [TensorType shape (DInt 8), TensorType shape dt']" and
    keep: "types ! 5 = IncompleteType \<or> rs ! 1 = types ! 5"
    by auto
  show ?thesis
    using t0 idr res rs keep ok by auto
qed

theorem validator_output_shape_witness:
  "QnnSoftmaxRel
     [TensorType [IntImm 2, IntImm 3] (DInt 8), TensorType [] (DFloat 32),
      TensorType [] (DInt 32), TensorType [] (DFloat 32), TensorType [] (DInt 32),
      IncompleteType] 5 \<lparr>axis = 1\<rparr>
   = Inr (True,
       [TensorType [IntImm 2, IntImm 3] (DInt 8), TensorType [] (DFloat 32),
        TensorType [] (DInt 32), TensorType [] (DFloat 32), TensorType [] (DInt 32),
        TensorType [IntImm 2, IntImm 3] (DInt 8)])
   \<and> IdentityRel [TensorType [IntImm 2, IntImm 3] (DInt 8), IncompleteType] 2 \<lparr>axis = 1\<rparr>
       = Inr (True,
           [TensorType [IntImm 2, IntImm 3] (DInt 8), TensorType [IntImm 2, IntImm 3] (DInt 8)])"
proof -
  have run: "QnnSoftmaxRel
     [TensorType [IntImm 2, IntImm 3] (DInt 8), TensorType [] (DFloat 32),
      TensorType [] (DInt 32), TensorType [] (DFloat 32), TensorType [] (DInt 32),
      IncompleteType] 5 \<lparr>axis = 1\<rparr>
   = Inr (True,
       [TensorType [IntImm 2, IntImm 3] (DInt 8), TensorType [] (DFloat 32),
        TensorType [] (DInt 32), TensorType [] (DFloat 32), TensorType [] (DInt 32),
        TensorType [IntImm 2, IntImm 3] (DInt 8)])"
    by (simp add: QnnSoftmaxRel_def upt_1_5 IsScalarType_def)
  from validator_output_shape [OF run] run show ?thesis by simp
qed

text \<open>
  Claim C9, as stated, fails: with six valid types for a rank-2 input, the validator succeeds
  for the axis 2, which indexes no dimension of the input.
\<close>

theorem axis_out_of_range_validates_counterexample:
  "QnnSoftmaxRel
     [TensorType [IntImm 2, IntImm 3] (DInt 8), TensorType [] (DFloat 32),
      TensorType [] (DInt 32), TensorType [] (DFloat 32), TensorType [] (DInt 32),
      IncompleteType] 5 \<lparr>axis = 2\<rparr>
   = Inr (True,
       [TensorType [IntImm 2, IntImm 3] (DInt 8), TensorType [] (DFloat 32),
        TensorType [] (DInt 32), TensorType [] (DFloat 32), TensorType [] (DInt 32),
        TensorType [IntImm 2, IntImm 3] (DInt 8)])"
  by (simp add: QnnSoftmaxRel_def upt_1_5 IsScalarType_def)

lemma IdentityRel_attrs: "IdentityRel ts k a = IdentityRel ts k b"
  by (induction ts k a rule: IdentityRel.induct) simp_all

text \<open>
  Claim C9, amended. The validator does not inspect the axis attribute: its outcome, fatal
  error, unresolved or success with the resolved types, is the same for every axis.
\<close>

theorem validator_ignores_axis:
  "QnnSoftmaxRel types num_inputs \<lparr>axis = a\<rparr> = QnnSoftmaxRel types num_inputs \<lparr>axis = b\<rparr>"
  by (cases "types ! 0")
    (simp_all add: QnnSoftmaxRel_def
       IdentityRel_attrs [of _ 2 "\<lparr>axis = a\<rparr>" "\<lparr>axis = b\<rparr>"])

section \<open>The fragment the lowering returns\<close>

text \<open>
  Claim C7. Called with five operands and the tensor type of the data operand, the lowering
  returns exactly the requantization of the wide result cast to \<^verbatim>\<open>Int(32)\<close>, with the
  operand's shape, the synthetic input scale \<open>1 / 256\<close> and input zero point 0, the
  node's output scale and output zero point, and the output element type \<^verbatim>\<open>Int(8)\<close>.
\<close>

theorem lowering_returns_requantize:
  "QnnSoftmaxCanonicalize attrs
     [data, input_scale, input_zero_point, output_scale, output_zero_point]
     (TensorType shape dt # arg_types)
   = Inr (Requantize
            (Cast (output_of (axis attrs) data input_scale input_zero_point) (DInt 32)) shape
            (Constant (DFloat 32) (FloatVal (1 / 256))) (Constant (DInt 64) (IntVal 0))
            output_scale output_zero_point (DInt 8) 0)"
  by (simp add: QnnSoftmaxCanonicalize_def MakeConstantScalar_def const_i64_def const_bits_def)

section \<open>The fragment computes the sequence of the algorithm\<close>

lemma bind1_simps:
  "bind1 (Inl e) k = Inl e" "bind1 (Inr a) k = k a"
  by (simp_all add: bind1_def)

lemma bind2_simps:
  "bind2 (Inl e) rb k = Inl e" "bind2 (Inr a) (Inl e) k = Inl e" "bind2 (Inr a) (Inr b) k = k a b"
  by (simp_all add: bind2_def)

lemma bind1_assoc: "bind1 (bind1 r f) g = bind1 r (\<lambda>a. bind1 (f a) g)"
  by (cases r) (simp_all add: bind1_simps)

lemma lift64_simps: "lift64 (Inl e) = Inl e" "lift64 (Inr t) = Inr (VTensor (DInt 64) t)"
  by (simp_all add: lift64_def)

lemma lift64_bind1I:
  assumes "ev = lift64 R"
      and "\<And>err. ev = Inl err \<Longrightarrow> ev' = Inl err"
      and "\<And>t. ev = Inr (VTensor (DInt 64) t) \<Longrightarrow> ev' = lift64 (K t)"
  shows "ev' = lift64 (bind1 R K)"
  using assms by (cases R) (simp_all add: bind1_simps lift64_simps)

lemma int_binop_lift64:
  "bind2 (lift64 ra) (lift64 rb) (int_binop ok err f)
     = lift64 (bind1 ra (\<lambda>a. bind1 rb (\<lambda>b. pointwise2 (ok (DInt 64)) err (f (DInt 64)) a b)))"
  by (cases ra; cases rb)
     (simp_all add: bind1_simps bind2_simps lift64_simps int_binop_def, simp add: lift64_def)

lemma divide_val_lift64:
  "bind2 (lift64 ra) (lift64 rb) (divide_val fs)
     = lift64 (bind1 ra (\<lambda>a. bind1 rb (\<lambda>b. t_div a b)))"
  by (cases ra; cases rb)
     (simp_all add: bind1_simps bind2_simps lift64_simps divide_val_def int_binop_def t_div_def,
      simp add: lift64_def)

lemma negative_val_lift64:
  "bind1 (lift64 r) negative_val = lift64 (bind1 r (\<lambda>t. Inr (int64 (pointwise1 uminus t))))"
  by (cases r)
     (simp_all add: bind1_simps lift64_simps negative_val_def int64_def pointwise1_def)

lemma reduce_val_lift64:
  "bind1 (lift64 r) (\<lambda>v. reduce_val red v [ax] True False) = lift64 (bind1 r (red (DInt 64) ax))"
  by (cases r) (simp_all add: bind1_simps lift64_simps reduce_val_def, simp add: lift64_def)

lemma eval_const_i64: "eval fs env (const_i64 v) = lift64 (Inr (i64 v))"
  by (simp add: const_i64_def MakeConstantScalar_def const_val_def i64_def lift64_simps)

lemmas normalise =
  int_binop_lift64 divide_val_lift64 negative_val_lift64 reduce_val_lift64 eval_const_i64
  bind1_assoc bind1_simps lift64_simps(2) [symmetric]

lemma eval_quantized_data:
  assumes "eval fs env data = Inr (VTensor (DInt 8) d)"
      and "eval fs env zp = Inr (VTensor (DInt 32) z)"
  shows "eval fs env (quantized_data_of data zp) = lift64 (t_sub (int64 d) (int64 z))"
  using assms
  by (simp add: quantized_data_of_def bind1_simps cast_val_def int64_def t_sub_def
       int_binop_lift64 [where ra = "Inr a" and rb = "Inr b" for a b, unfolded lift64_simps bind1_simps])

lemma eval_x_0:
  assumes "eval fs env scale = Inr (VFloat s)"
  shows "eval fs env (x_0_of scale) = lift64 (reciprocal_scale fs s)"
  using assms
  by (simp add: x_0_of_def MakeConstantScalar_def const_val_def bind1_simps bind2_simps
      divide_val_def round_val_def cast_val_def reciprocal_scale_def lift64_simps i64_def
      split: option.splits)

lemma eval_x_p:
  assumes "eval fs env data = Inr (VTensor (DInt 8) d)"
      and "eval fs env zp = Inr (VTensor (DInt 32) z)"
  shows "eval fs env (x_p_of ax data zp) = lift64 (adjusted_spec ax d z)"
proof -
  let ?K = "\<lambda>shifted. bind1 (t_shr shifted (i64 1)) (\<lambda>half.
                        bind1 (t_add shifted half) (\<lambda>shifted_plus.
                        bind1 (t_shr shifted (i64 4)) (\<lambda>sixteenth.
                        t_sub shifted_plus sixteenth)))"
  have "eval fs env (x_p_of ax data zp)
          = lift64 (bind1 (t_sub (int64 d) (int64 z)) (\<lambda>centered.
                    bind1 (bind1 (reduce_max (DInt 64) ax centered) (\<lambda>mx. t_sub centered mx)) ?K))"
  proof (rule lift64_bind1I [OF eval_quantized_data [OF assms]])
    fix err assume "eval fs env (quantized_data_of data zp) = Inl err"
    then show "eval fs env (x_p_of ax data zp) = Inl err"
      by (simp add: x_p_of_def x_of_def Let_def bind2_simps)
  next
    fix c assume qd: "eval fs env (quantized_data_of data zp) = Inr (VTensor (DInt 64) c)"
    have x: "eval fs env (x_of ax data zp)
               = lift64 (bind1 (reduce_max (DInt 64) ax c) (\<lambda>mx. t_sub c mx))"
      using qd by (simp add: x_of_def max_of_def normalise t_sub_def)
    show "eval fs env (x_p_of ax data zp)
            = lift64 (bind1 (bind1 (reduce_max (DInt 64) ax c) (\<lambda>mx. t_sub c mx)) ?K)"
    proof (rule lift64_bind1I [OF x])
      fix err assume "eval fs env (x_of ax data zp) = Inl err"
      then show "eval fs env (x_p_of ax data zp) = Inl err"
        by (simp add: x_p_of_def Let_def bind2_simps)
    next
      fix s assume "eval fs env (x_of ax data zp) = Inr (VTensor (DInt 64) s)"
      then show "eval fs env (x_p_of ax data zp) = lift64 (?K s)"
        by (simp add: x_p_of_def Let_def normalise t_sub_def t_add_def t_shr_def)
    qed
  qed
  then show ?thesis
    by (simp add: adjusted_spec_def bind1_assoc)
qed

lemma eval_exps:
  assumes "eval fs env (x_p_of ax data zp) = Inr (VTensor (DInt 64) a)"
      and "eval fs env scale = Inr (VFloat s)"
  shows "eval fs env (exps_of ax data scale zp) = lift64 (exp_approx_spec fs s a)"
  unfolding exp_approx_spec_def
proof (rule lift64_bind1I [OF eval_x_0 [OF assms(2)]])
  fix err assume "eval fs env (x_0_of scale) = Inl err"
  then show "eval fs env (exps_of ax data scale zp) = Inl err"
    using assms(1) by (simp add: exps_of_def x_b_of_def r_of_def q_of_def bind1_simps bind2_simps)
next
  fix x0 assume x0: "eval fs env (x_0_of scale) = Inr (VTensor (DInt 64) x0)"
  have q: "eval fs env (q_of ax data scale zp) = lift64 (t_div a (int64 (pointwise1 uminus x0)))"
    using assms(1) x0 by (simp add: q_of_def normalise)
  show "eval fs env (exps_of ax data scale zp)
          = lift64 (bind1 (t_div a (int64 (pointwise1 uminus x0))) (\<lambda>q.
     bind1 (t_mul q (int64 (pointwise1 uminus x0))) (\<lambda>qx.
     bind1 (t_sub a qx) (\<lambda>r.
     bind1 (t_shr r (i64 1)) (\<lambda>r_half.
     bind1 (t_add r_half x0) (\<lambda>base.
     bind1 (t_sub (i64 30) q) (\<lambda>amount.
     t_shl base amount)))))))"
  proof (rule lift64_bind1I [OF q])
    fix err assume "eval fs env (q_of ax data scale zp) = Inl err"
    then show "eval fs env (exps_of ax data scale zp) = Inl err"
      using assms(1) by (simp add: exps_of_def x_b_of_def r_of_def bind1_simps bind2_simps)
  next
    fix q assume "eval fs env (q_of ax data scale zp) = Inr (VTensor (DInt 64) q)"
    then show "eval fs env (exps_of ax data scale zp) = lift64 (
     bind1 (t_mul q (int64 (pointwise1 uminus x0))) (\<lambda>qx.
     bind1 (t_sub a qx) (\<lambda>r.
     bind1 (t_shr r (i64 1)) (\<lambda>r_half.
     bind1 (t_add r_half x0) (\<lambda>base.
     bind1 (t_sub (i64 30) q) (\<lambda>amount.
     t_shl base amount))))))"
      using assms(1) x0
      by (simp add: exps_of_def x_b_of_def r_of_def const_n_def normalise
          t_sub_def t_add_def t_shr_def t_mul_def t_shl_def)
  qed
qed

lemma eval_output:
  assumes "eval fs env (exps_of ax data scale zp) = Inr (VTensor (DInt 64) e)"
  shows "eval fs env (output_of ax data scale zp) = lift64 (output_wide_spec ax e)"
  using assms
  by (simp add: output_of_def sums_of_def const_m_def const_bits_def output_wide_spec_def
      normalise t_mul_def t_shr_def)

lemma operands_simps:
  "operands d s z ''data'' = Some (VTensor (DInt 8) d)"
  "operands d s z ''scale'' = Some (VFloat s)"
  "operands d s z ''zero_point'' = Some (VTensor (DInt 32) (scalar_tensor z))"
  by (simp_all add: operands_def)

lemma eval_output_of:
  assumes "eval fs env data = Inr (VTensor (DInt 8) d)"
      and "eval fs env input_zero_point = Inr (VTensor (DInt 32) z)"
      and "eval fs env input_scale = Inr (VFloat s)"
  shows "eval fs env (output_of ax data input_scale input_zero_point)
           = (case softmax_spec fs ax d s z of
                Inl e \<Rightarrow> Inl e
              | Inr output_wide \<Rightarrow> Inr (VTensor (DInt 64) output_wide))"
proof -
  have "eval fs env (output_of ax data input_scale input_zero_point)
          = lift64 (softmax_spec fs ax d s z)"
    unfolding softmax_spec_def
  proof (rule lift64_bind1I [OF eval_x_p [OF assms(1,2)]])
    fix err assume "eval fs env (x_p_of ax data input_zero_point) = Inl err"
    then show "eval fs env (output_of ax data input_scale input_zero_point) = Inl err"
      by (simp add: output_of_def sums_of_def exps_of_def x_b_of_def r_of_def const_i64_def
          MakeConstantScalar_def const_val_def bind1_simps bind2_simps)
  next
    fix a assume xp: "eval fs env (x_p_of ax data input_zero_point) = Inr (VTensor (DInt 64) a)"
    show "eval fs env (output_of ax data input_scale input_zero_point)
            = lift64 (bind1 (exp_approx_spec fs s a) (output_wide_spec ax))"
    proof (rule lift64_bind1I [OF eval_exps [OF xp assms(3)]])
      fix err assume "eval fs env (exps_of ax data input_scale input_zero_point) = Inl err"
      then show "eval fs env (output_of ax data input_scale input_zero_point) = Inl err"
        by (simp add: output_of_def sums_of_def const_i64_def
            MakeConstantScalar_def const_val_def bind1_simps bind2_simps)
    next
      fix e assume "eval fs env (exps_of ax data input_scale input_zero_point) = Inr (VTensor (DInt 64) e)"
      then show "eval fs env (output_of ax data input_scale input_zero_point)
                   = lift64 (output_wide_spec ax e)"
        by (rule eval_output)
    qed
  qed
  then show ?thesis by (simp add: lift64_def)
qed

lemma QnnSoftmaxCanonicalize_fragment:
  "QnnSoftmaxCanonicalize attrs
     [data, input_scale, input_zero_point, output_scale, output_zero_point]
     (TensorType shape dt # arg_types)
   = Inr (Requantize
            (Cast (output_of (axis attrs) data input_scale input_zero_point) (DInt 32)) shape
            (Constant (DFloat 32) (FloatVal (1 / 256))) (Constant (DInt 64) (IntVal 0))
            output_scale output_zero_point (DInt 8) 0)"
  by (simp add: QnnSoftmaxCanonicalize_def MakeConstantScalar_def const_i64_def const_bits_def)

text \<open>
  Claim C1. For every call of the lowering with five operands and the tensor type of the
  data operand: the lowering returns a fragment, and whenever the data operand evaluates to
  an \<^verbatim>\<open>int8\<close> tensor, the zero point to an \<^verbatim>\<open>int32\<close> tensor and the scale to a
  floating-point scalar, the wide output of the returned fragment evaluates to exactly what
  the integer sequence of the algorithm gives for the node's axis, with \<open>n = 30\<close>,
  \<open>m = 60\<close> and \<open>bits = 8\<close>: the same tensor of element type \<^verbatim>\<open>Int(64)\<close>, or the
  same error.
\<close>

theorem lowered_fragment_computes_spec_sequence:
  assumes "eval fs env data = Inr (VTensor (DInt 8) d)"
      and "eval fs env input_zero_point = Inr (VTensor (DInt 32) z)"
      and "eval fs env input_scale = Inr (VFloat s)"
  shows "case QnnSoftmaxCanonicalize attrs
                [data, input_scale, input_zero_point, output_scale, output_zero_point]
                (TensorType shape dt # arg_types) of
           Inl err \<Rightarrow> False
         | Inr fragment \<Rightarrow>
             (case wide_output fragment of
                None \<Rightarrow> False
              | Some wide \<Rightarrow>
                  eval fs env wide
                    = (case softmax_spec fs (axis attrs) d s z of
                         Inl e \<Rightarrow> Inl e
                       | Inr output_wide \<Rightarrow> Inr (VTensor (DInt 64) output_wide)))"
  using eval_output_of [OF assms, of "axis attrs"]
  by (simp add: QnnSoftmaxCanonicalize_fragment)

theorem lowered_fragment_computes_spec_sequence_witness:
  "case QnnSoftmaxCanonicalize \<lparr>axis = 0\<rparr>
          [Var ''data'', Var ''scale'', Var ''zero_point'', Var ''output_scale'',
           Var ''output_zero_point'']
          [TensorType [IntImm 3] (DInt 8)] of
     Inl err \<Rightarrow> False
   | Inr fragment \<Rightarrow>
       (case wide_output fragment of
          None \<Rightarrow> False
        | Some wide \<Rightarrow>
            eval exact_ops (operands (vector [10, 20, 5]) (1 / 256) 0) wide
              = (case softmax_spec exact_ops 0 (vector [10, 20, 5]) (1 / 256) (scalar_tensor 0) of
                   Inl e \<Rightarrow> Inl e
                 | Inr output_wide \<Rightarrow> Inr (VTensor (DInt 64) output_wide)))"
  using lowered_fragment_computes_spec_sequence
    [of exact_ops "operands (vector [10, 20, 5]) (1 / 256) 0" "Var ''data''"
        "vector [10, 20, 5]" "Var ''zero_point''" "scalar_tensor 0" "Var ''scale''" "1 / 256"
        "\<lparr>axis = 0\<rparr>" "Var ''output_scale''" "Var ''output_zero_point''" "[IntImm 3]"
        "DInt 8" "[]"]
  by (simp add: operands_simps QnnSoftmaxCanonicalize_fragment)

section \<open>Evaluation at one element\<close>

subsection \<open>Indices and broadcasting\<close>

lemma valid_index_nth:
  "valid_index ds idx \<longleftrightarrow> length idx = length ds \<and> (\<forall>j<length ds. idx ! j < ds ! j)"
  by (auto simp: valid_index_def list_all2_conv_all_nth)

lemma valid_index_Nil [simp]: "valid_index [] idx \<longleftrightarrow> idx = []"
  by (simp add: valid_index_def)

lemma valid_index_Cons:
  "valid_index (d # ds) idx \<longleftrightarrow> (\<exists>i rest. idx = i # rest \<and> i < d \<and> valid_index ds rest)"
  by (auto simp: valid_index_def list_all2_Cons2)

lemma set_indices: "set (indices ds) = {idx. valid_index ds idx}"
proof (induction ds)
  case Nil
  show ?case by auto
next
  case (Cons d ds)
  show ?case
    by (force simp: valid_index_Cons Cons.IH)
qed

lemma list_all_indices:
  "list_all P (indices ds) \<longleftrightarrow> (\<forall>idx. valid_index ds idx \<longrightarrow> P idx)"
  by (simp add: list_all_iff set_indices)

lemma bshape_rev_same: "bshape_rev xs xs = Some xs"
  by (induction xs) simp_all

lemma bshape_rev_update: "bshape_rev xs (xs[j := 1]) = Some xs"
proof (induction xs arbitrary: j)
  case Nil
  show ?case by simp
next
  case (Cons x xs)
  from Cons.IH show ?case by (cases j) (simp_all add: bshape_rev_same)
qed

lemma bshape_same: "bshape ds ds = Some ds"
  by (simp add: bshape_def bshape_rev_same)

lemma bshape_scalar_r: "bshape ds [] = Some ds"
proof -
  have "bshape_rev (rev ds) [] = Some (rev ds)"
    by (cases "rev ds") simp_all
  then show ?thesis by (simp add: bshape_def)
qed

lemma bshape_scalar_l: "bshape [] ds = Some ds"
  by (simp add: bshape_def)

lemma bshape_reduced: "k < length ds \<Longrightarrow> bshape ds (ds[k := 1]) = Some ds"
proof -
  assume "k < length ds"
  then have "bshape_rev (rev ds) (rev (ds[k := 1])) = Some (rev ds)"
    by (simp only: rev_update bshape_rev_update)
  then show ?thesis by (simp add: bshape_def)
qed

lemma bidx_same:
  assumes "valid_index ds idx"
  shows "bidx ds idx = idx"
proof (rule nth_equalityI)
  from assms show len: "length (bidx ds idx) = length idx"
    by (simp add: bidx_def valid_index_nth)
  fix i assume "i < length (bidx ds idx)"
  with len assms have "i < length ds" "length idx = length ds" "idx ! i < ds ! i"
    by (simp_all add: valid_index_nth)
  then show "bidx ds idx ! i = idx ! i"
    by (auto simp: bidx_def)
qed

lemma bidx_scalar [simp]: "bidx [] idx = []"
  by (simp add: bidx_def)

lemma bidx_reduced:
  assumes "valid_index ds idx" "k < length ds"
  shows "bidx (ds[k := 1]) idx = idx[k := 0]"
proof (rule nth_equalityI)
  from assms show len: "length (bidx (ds[k := 1]) idx) = length (idx[k := 0])"
    by (simp add: bidx_def valid_index_nth)
  fix i assume "i < length (bidx (ds[k := 1]) idx)"
  with len assms have i: "i < length ds" "length idx = length ds" "idx ! i < ds ! i"
    by (simp_all add: valid_index_nth)
  then show "bidx (ds[k := 1]) idx ! i = idx[k := 0] ! i"
    by (cases "i = k") (auto simp: bidx_def)
qed

lemma valid_index_reduced:
  "valid_index ds idx \<Longrightarrow> k < length ds \<Longrightarrow> valid_index (ds[k := 1]) (idx[k := 0])"
  by (auto simp: valid_index_nth nth_list_update)

lemma valid_index_line:
  "valid_index (ds[k := 1]) idx \<Longrightarrow> k < length ds \<Longrightarrow> j < ds ! k \<Longrightarrow> valid_index ds (idx[k := j])"
  by (auto simp: valid_index_nth nth_list_update)

lemma real_axis_less: "real_axis rank ax = Some k \<Longrightarrow> k < rank"
  by (auto simp: real_axis_def split: if_splits)

lemma yieldsI:
  "r = Inr (VTensor dt t) \<Longrightarrow> dims t = ds \<Longrightarrow> (\<And>idx. valid_index ds idx \<Longrightarrow> elem t idx = g idx)
     \<Longrightarrow> yields r dt ds g"
  by (auto simp: yields_def)

lemma yields_cong:
  "yields r dt ds g \<Longrightarrow> (\<And>idx. valid_index ds idx \<Longrightarrow> g idx = g' idx) \<Longrightarrow> yields r dt ds g'"
  by (auto simp: yields_def)

lemma yields_binop:
  assumes a: "yields ra dt da ga" and b: "yields rb dt db gb" and int: "is_int dt"
      and s: "bshape da db = Some s"
      and valid: "\<And>idx. valid_index s idx \<Longrightarrow>
                    valid_index da (bidx da idx) \<and> valid_index db (bidx db idx)"
      and ok: "\<And>idx. valid_index s idx \<Longrightarrow> ok dt (ga (bidx da idx)) (gb (bidx db idx))"
  shows "yields (bind2 ra rb (int_binop ok err f)) dt s
           (\<lambda>idx. f dt (ga (bidx da idx)) (gb (bidx db idx)))"
proof -
  from a obtain ta where ta: "ra = Inr (VTensor dt ta)" "dims ta = da"
    "\<And>idx. valid_index da idx \<Longrightarrow> elem ta idx = ga idx"
    by (auto simp: yields_def)
  from b obtain tb where tb: "rb = Inr (VTensor dt tb)" "dims tb = db"
    "\<And>idx. valid_index db idx \<Longrightarrow> elem tb idx = gb idx"
    by (auto simp: yields_def)
  have all: "list_all (\<lambda>idx. ok dt (elem ta (bidx da idx)) (elem tb (bidx db idx))) (indices s)"
    using valid ok by (simp add: list_all_indices ta(3) tb(3))
  show ?thesis
    using valid
    by (intro yieldsI [where t = "\<lparr>dims = s, elem = (\<lambda>idx. f dt (elem ta (bidx da idx)) (elem tb (bidx db idx)))\<rparr>"])
       (simp_all add: ta tb int s all bind2_def int_binop_def pointwise2_def)
qed

lemma fails_binop:
  assumes a: "yields ra dt da ga" and b: "yields rb dt db gb" and int: "is_int dt"
      and s: "bshape da db = Some s"
      and bad: "valid_index s idx" "valid_index da (bidx da idx)" "valid_index db (bidx db idx)"
               "\<not> ok dt (ga (bidx da idx)) (gb (bidx db idx))"
  shows "bind2 ra rb (int_binop ok err f) = Inl err"
proof -
  from a obtain ta where ta: "ra = Inr (VTensor dt ta)" "dims ta = da"
    "\<And>idx. valid_index da idx \<Longrightarrow> elem ta idx = ga idx"
    by (auto simp: yields_def)
  from b obtain tb where tb: "rb = Inr (VTensor dt tb)" "dims tb = db"
    "\<And>idx. valid_index db idx \<Longrightarrow> elem tb idx = gb idx"
    by (auto simp: yields_def)
  have "\<not> list_all (\<lambda>idx. ok dt (elem ta (bidx da idx)) (elem tb (bidx db idx))) (indices s)"
    using bad by (auto simp: list_all_indices ta(3) tb(3))
  then show ?thesis
    by (simp add: ta tb int s bind2_def int_binop_def pointwise2_def)
qed

lemma yields_same:
  assumes "yields ra dt ds ga" "yields rb dt ds gb" "is_int dt"
      and "\<And>idx. valid_index ds idx \<Longrightarrow> ok dt (ga idx) (gb idx)"
  shows "yields (bind2 ra rb (int_binop ok err f)) dt ds (\<lambda>idx. f dt (ga idx) (gb idx))"
  by (rule yields_cong [OF yields_binop [OF assms(1-3) bshape_same]])
     (simp_all add: bidx_same assms(4))

lemma yields_scalar_r:
  assumes "yields ra dt ds ga" "yields rb dt [] gb" "is_int dt"
      and "\<And>idx. valid_index ds idx \<Longrightarrow> ok dt (ga idx) (gb [])"
  shows "yields (bind2 ra rb (int_binop ok err f)) dt ds (\<lambda>idx. f dt (ga idx) (gb []))"
  by (rule yields_cong [OF yields_binop [OF assms(1-3) bshape_scalar_r]])
     (simp_all add: bidx_same assms(4))

lemma yields_scalar_l:
  assumes "yields ra dt [] ga" "yields rb dt ds gb" "is_int dt"
      and "\<And>idx. valid_index ds idx \<Longrightarrow> ok dt (ga []) (gb idx)"
  shows "yields (bind2 ra rb (int_binop ok err f)) dt ds (\<lambda>idx. f dt (ga []) (gb idx))"
  by (rule yields_cong [OF yields_binop [OF assms(1-3) bshape_scalar_l]])
     (simp_all add: bidx_same assms(4))

lemma yields_reduced:
  assumes "yields ra dt ds ga" "yields rb dt (ds[k := 1]) gb" "is_int dt" "k < length ds"
      and "\<And>idx. valid_index ds idx \<Longrightarrow> ok dt (ga idx) (gb (idx[k := 0]))"
  shows "yields (bind2 ra rb (int_binop ok err f)) dt ds (\<lambda>idx. f dt (ga idx) (gb (idx[k := 0])))"
  by (rule yields_cong [OF yields_binop [OF assms(1-3) bshape_reduced [OF assms(4)]]])
     (simp_all add: bidx_same bidx_reduced [unfolded One_nat_def]
        valid_index_reduced [unfolded One_nat_def] assms(4,5))

lemma yields_reduce:
  assumes r: "yields r dt ds g" and int: "is_int dt" and k: "real_axis (length ds) ax = Some k"
      and red: "red = (\<lambda>dt. reduce_keepdims (f dt) (init dt))"
  shows "yields (bind1 r (\<lambda>v. reduce_val red v [ax] True False)) dt (ds[k := 1])
           (\<lambda>idx. foldr (f dt) (map (\<lambda>j. g (idx[k := j])) [0..<ds ! k]) (init dt))"
proof -
  from r obtain t where t: "r = Inr (VTensor dt t)" "dims t = ds"
    "\<And>idx. valid_index ds idx \<Longrightarrow> elem t idx = g idx"
    by (auto simp: yields_def)
  from k have kl: "k < length ds" by (rule real_axis_less)
  have line: "map (\<lambda>j. elem t (idx[k := j])) [0..<ds ! k] = map (\<lambda>j. g (idx[k := j])) [0..<ds ! k]"
    if "valid_index (ds[k := 1]) idx" for idx
    using that kl by (intro map_cong refl t(3) valid_index_line) simp_all
  show ?thesis
    by (rule yieldsI [where t = "\<lparr>dims = ds[k := 1],
          elem = (\<lambda>idx. foldr (f dt) (map (\<lambda>j. elem t (idx[k := j])) [0..<ds ! k]) (init dt))\<rparr>"])
       (simp_all add: t(1,2) int k red bind1_def reduce_val_def reduce_keepdims_def line)
qed

lemma yields_cast:
  assumes "yields r d ds g" "is_int dt"
  shows "yields (bind1 r (\<lambda>v. cast_val fs v dt)) dt ds (\<lambda>idx. wrap dt (g idx))"
  using assms by (auto simp: yields_def bind1_def cast_val_def pointwise1_def)

lemma yields_negative:
  assumes "yields r dt ds g" "is_int dt"
  shows "yields (bind1 r negative_val) dt ds (\<lambda>idx. wrap dt (- g idx))"
  using assms by (auto simp: yields_def bind1_def negative_val_def pointwise1_def)

lemma yields_const_i64: "yields (eval fs env (const_i64 v)) (DInt 64) [] (\<lambda>idx. wrap (DInt 64) v)"
  by (simp add: yields_def const_i64_def MakeConstantScalar_def const_val_def scalar_tensor_def)

subsection \<open>The steps of the fragment\<close>

lemma wrap64_id: "- (2 ^ 63) \<le> v \<Longrightarrow> v < 2 ^ 63 \<Longrightarrow> wrap (DInt 64) v = v"
  by (simp add: wrap.simps)

lemma wrap64_numerals [simp]:
  "wrap (DInt 64) 0 = 0" "wrap (DInt 64) 1 = 1" "wrap (DInt 64) 4 = 4" "wrap (DInt 64) 30 = 30"
  "wrap (DInt 64) 52 = 52" "wrap (DInt 64) 1152921504606846976 = 1152921504606846976"
  by (simp_all add: wrap64_id)

lemma is_int_64 [simp]: "is_int (DInt 64)" by simp

lemma yields_quantized_data:
  assumes "yields (eval fs env data) (DInt 8) ds g"
      and "yields (eval fs env zp) (DInt 32) [] (\<lambda>idx. zv)"
  shows "yields (eval fs env (quantized_data_of data zp)) (DInt 64) ds (centered_at g zv)"
  unfolding quantized_data_of_def eval.simps centered_at_def
  by (rule yields_scalar_r [OF yields_cast [OF assms(1)] yields_cast [OF assms(2)]])
     (simp_all add: always_def)

lemma yields_x:
  assumes "yields (eval fs env data) (DInt 8) ds g"
      and "yields (eval fs env zp) (DInt 32) [] (\<lambda>idx. zv)"
      and k: "real_axis (length ds) ax = Some k"
  shows "yields (eval fs env (x_of ax data zp)) (DInt 64) ds (shifted_at g zv k (ds ! k))"
proof -
  note qd = yields_quantized_data [OF assms(1,2)]
  have mx: "yields (eval fs env (max_of ax data zp)) (DInt 64) (ds[k := 1])
     (\<lambda>idx. foldr max (map (\<lambda>j. centered_at g zv (idx[k := j])) [0..<ds ! k]) (min_value (DInt 64)))"
    unfolding max_of_def eval.simps
    by (rule yields_reduce [OF qd _ k, where f = "\<lambda>dt. max" and init = min_value])
       (simp_all add: reduce_max_def fun_eq_iff)
  show ?thesis
    unfolding x_of_def eval.simps
    by (rule yields_cong [OF yields_reduced [OF qd mx _ real_axis_less [OF k]]])
       (simp_all add: always_def shifted_at_def line_def)
qed

lemma yields_x_p:
  assumes "yields (eval fs env data) (DInt 8) ds g"
      and "yields (eval fs env zp) (DInt 32) [] (\<lambda>idx. zv)"
      and k: "real_axis (length ds) ax = Some k"
  shows "yields (eval fs env (x_p_of ax data zp)) (DInt 64) ds
           (\<lambda>idx. adjusted_val (shifted_at g zv k (ds ! k) idx))"
proof -
  note x = yields_x [OF assms]
  have s1: "yields (eval fs env (RightShift (x_of ax data zp) (const_i64 1))) (DInt 64) ds
              (\<lambda>idx. shr_i (DInt 64) (shifted_at g zv k (ds ! k) idx) 1)"
    unfolding eval.simps
    by (rule yields_cong [OF yields_scalar_r [OF x yields_const_i64]])
       (simp_all add: shift_ok_def)
  have s4: "yields (eval fs env (RightShift (x_of ax data zp) (const_i64 4))) (DInt 64) ds
              (\<lambda>idx. shr_i (DInt 64) (shifted_at g zv k (ds ! k) idx) 4)"
    unfolding eval.simps
    by (rule yields_cong [OF yields_scalar_r [OF x yields_const_i64]])
       (simp_all add: shift_ok_def)
  have ad: "yields (eval fs env (Add (x_of ax data zp) (RightShift (x_of ax data zp) (const_i64 1))))
              (DInt 64) ds
              (\<lambda>idx. add_i (DInt 64) (shifted_at g zv k (ds ! k) idx)
                        (shr_i (DInt 64) (shifted_at g zv k (ds ! k) idx) 1))"
    unfolding eval.simps(4)
    by (rule yields_same [OF x s1]) (simp_all add: always_def)
  show ?thesis
    unfolding x_p_of_def Let_def adjusted_val_def eval.simps(5)
    by (rule yields_same [OF ad s4]) (simp_all add: always_def)
qed

lemma bshape_rev_update_l: "bshape_rev (xs[j := 1]) xs = Some xs"
proof (induction xs arbitrary: j)
  case Nil
  show ?case by simp
next
  case (Cons x xs)
  from Cons.IH show ?case by (cases j) (simp_all add: bshape_rev_same)
qed

lemma bshape_reduced_l: "k < length ds \<Longrightarrow> bshape (ds[k := 1]) ds = Some ds"
proof -
  assume "k < length ds"
  then have "bshape_rev (rev (ds[k := 1])) (rev ds) = Some (rev ds)"
    by (simp only: rev_update bshape_rev_update_l)
  then show ?thesis by (simp add: bshape_def)
qed

lemma yields_reduced_l:
  assumes "yields ra dt (ds[k := 1]) ga" "yields rb dt ds gb" "is_int dt" "k < length ds"
      and "\<And>idx. valid_index ds idx \<Longrightarrow> ok dt (ga (idx[k := 0])) (gb idx)"
  shows "yields (bind2 ra rb (int_binop ok err f)) dt ds (\<lambda>idx. f dt (ga (idx[k := 0])) (gb idx))"
  by (rule yields_cong [OF yields_binop [OF assms(1-3) bshape_reduced_l [OF assms(4)]]])
     (simp_all add: bidx_same bidx_reduced [unfolded One_nat_def]
        valid_index_reduced [unfolded One_nat_def] assms(4,5))

lemma divide_val_tensors:
  assumes "yields ra dt da ga" "yields rb dt db gb"
  shows "bind2 ra rb (divide_val fs) = bind2 ra rb (int_binop divisor_ok DivisionByZero div_i)"
  using assms by (auto simp: yields_def bind2_def divide_val_def)

lemma yields_x_0:
  assumes "eval fs env scale = Inr (VFloat s)"
      and "f_to_int fs (f_round fs (f_div fs (f_const fs 1) s)) = Some v"
  shows "yields (eval fs env (x_0_of scale)) (DInt 64) [] (\<lambda>idx. wrap (DInt 64) v)"
  using assms
  by (simp add: yields_def x_0_of_def MakeConstantScalar_def const_val_def bind1_def bind2_def
      divide_val_def round_val_def cast_val_def scalar_tensor_def)

lemma yields_neg_x_0:
  assumes "yields (eval fs env (x_0_of scale)) (DInt 64) [] (\<lambda>idx. x0)"
  shows "yields (eval fs env (Negative (x_0_of scale))) (DInt 64) [] (\<lambda>idx. wrap (DInt 64) (- x0))"
  unfolding eval.simps(10) by (rule yields_negative [OF assms]) simp

lemma yields_q:
  assumes xp: "yields (eval fs env (x_p_of ax data zp)) (DInt 64) ds XP"
      and x0: "yields (eval fs env (x_0_of scale)) (DInt 64) [] (\<lambda>idx. x0)"
      and nz: "wrap (DInt 64) (- x0) \<noteq> 0"
  shows "yields (eval fs env (q_of ax data scale zp)) (DInt 64) ds (\<lambda>idx. q_val (XP idx) x0)"
  unfolding q_of_def eval.simps(7) divide_val_tensors [OF xp yields_neg_x_0 [OF x0]] q_val_def
  by (rule yields_scalar_r [OF xp yields_neg_x_0 [OF x0]]) (simp_all add: divisor_ok_def nz)

lemma fails_q:
  assumes xp: "yields (eval fs env (x_p_of ax data zp)) (DInt 64) ds XP"
      and x0: "yields (eval fs env (x_0_of scale)) (DInt 64) [] (\<lambda>idx. x0)"
      and z: "wrap (DInt 64) (- x0) = 0"
      and idx: "valid_index ds idx"
  shows "eval fs env (q_of ax data scale zp) = Inl DivisionByZero"
  unfolding q_of_def eval.simps(7) divide_val_tensors [OF xp yields_neg_x_0 [OF x0]]
  by (rule fails_binop [OF xp yields_neg_x_0 [OF x0] _ bshape_scalar_r idx])
     (simp_all add: divisor_ok_def z bidx_same idx)

lemma yields_x_b:
  assumes xp: "yields (eval fs env (x_p_of ax data zp)) (DInt 64) ds XP"
      and x0: "yields (eval fs env (x_0_of scale)) (DInt 64) [] (\<lambda>idx. x0)"
      and nz: "wrap (DInt 64) (- x0) \<noteq> 0"
  shows "yields (eval fs env (x_b_of ax data scale zp)) (DInt 64) ds (\<lambda>idx. base_val (XP idx) x0)"
proof -
  note q = yields_q [OF assms]
  have qx: "yields (eval fs env (Multiply (q_of ax data scale zp) (Negative (x_0_of scale))))
              (DInt 64) ds (\<lambda>idx. mul_i (DInt 64) (q_val (XP idx) x0) (wrap (DInt 64) (- x0)))"
    unfolding eval.simps(6)
    by (rule yields_scalar_r [OF q yields_neg_x_0 [OF x0]]) (simp_all add: always_def)
  have r: "yields (eval fs env (r_of ax data scale zp)) (DInt 64) ds
             (\<lambda>idx. sub_i (DInt 64) (XP idx)
                       (mul_i (DInt 64) (q_val (XP idx) x0) (wrap (DInt 64) (- x0))))"
    unfolding r_of_def eval.simps(5)
    by (rule yields_same [OF xp qx]) (simp_all add: always_def)
  have r1: "yields (eval fs env (RightShift (r_of ax data scale zp) (const_i64 1))) (DInt 64) ds
             (\<lambda>idx. shr_i (DInt 64) (sub_i (DInt 64) (XP idx)
                       (mul_i (DInt 64) (q_val (XP idx) x0) (wrap (DInt 64) (- x0)))) 1)"
    unfolding eval.simps(9)
    by (rule yields_cong [OF yields_scalar_r [OF r yields_const_i64]])
       (simp_all add: shift_ok_def)
  show ?thesis
    unfolding x_b_of_def eval.simps(4) base_val_def
    by (rule yields_scalar_r [OF r1 x0]) (simp_all add: always_def)
qed

lemma yields_amount:
  assumes xp: "yields (eval fs env (x_p_of ax data zp)) (DInt 64) ds XP"
      and x0: "yields (eval fs env (x_0_of scale)) (DInt 64) [] (\<lambda>idx. x0)"
      and nz: "wrap (DInt 64) (- x0) \<noteq> 0"
  shows "yields (eval fs env (Subtract (const_i64 const_n) (q_of ax data scale zp))) (DInt 64) ds
           (\<lambda>idx. sub_i (DInt 64) 30 (q_val (XP idx) x0))"
  unfolding eval.simps(5)
  by (rule yields_cong [OF yields_scalar_l [OF yields_const_i64 yields_q [OF assms]]])
     (simp_all add: always_def const_n_def)

lemma yields_exps:
  assumes xp: "yields (eval fs env (x_p_of ax data zp)) (DInt 64) ds XP"
      and x0: "yields (eval fs env (x_0_of scale)) (DInt 64) [] (\<lambda>idx. x0)"
      and nz: "wrap (DInt 64) (- x0) \<noteq> 0"
      and ok: "\<And>idx. valid_index ds idx \<Longrightarrow>
                 0 \<le> sub_i (DInt 64) 30 (q_val (XP idx) x0)
                 \<and> sub_i (DInt 64) 30 (q_val (XP idx) x0) < 64"
  shows "yields (eval fs env (exps_of ax data scale zp)) (DInt 64) ds (\<lambda>idx. exp_val (XP idx) x0)"
  unfolding exps_of_def eval.simps(8) exp_val_def
  by (rule yields_same [OF yields_x_b [OF xp x0 nz] yields_amount [OF xp x0 nz]])
     (simp_all add: shift_ok_def ok)

lemma fails_exps:
  assumes xp: "yields (eval fs env (x_p_of ax data zp)) (DInt 64) ds XP"
      and x0: "yields (eval fs env (x_0_of scale)) (DInt 64) [] (\<lambda>idx. x0)"
      and nz: "wrap (DInt 64) (- x0) \<noteq> 0"
      and idx: "valid_index ds idx"
      and bad: "sub_i (DInt 64) 30 (q_val (XP idx) x0) < 0"
  shows "eval fs env (exps_of ax data scale zp) = Inl UndefinedShift"
  unfolding exps_of_def eval.simps(8)
  by (rule fails_binop [OF yields_x_b [OF xp x0 nz] yields_amount [OF xp x0 nz] _ bshape_same idx])
     (use bad in \<open>simp_all add: shift_ok_def bidx_same idx\<close>)

lemma yields_output:
  assumes e: "yields (eval fs env (exps_of ax data scale zp)) (DInt 64) ds E"
      and k: "real_axis (length ds) ax = Some k"
      and nz: "\<And>idx. valid_index (ds[k := 1]) idx \<Longrightarrow>
                 foldr (add_i (DInt 64)) (line k (ds ! k) E idx) 0 \<noteq> 0"
  shows "yields (eval fs env (output_of ax data scale zp)) (DInt 64) ds
           (\<lambda>idx. out_val (E idx) (foldr (add_i (DInt 64)) (line k (ds ! k) E idx) 0))"
proof -
  note kl = real_axis_less [OF k]
  have line0: "line k n E (idx[k := 0]) = line k n E idx" for n idx
    by (simp add: line_def)
  have sums: "yields (eval fs env (sums_of ax data scale zp)) (DInt 64) (ds[k := 1])
     (\<lambda>idx. foldr (add_i (DInt 64)) (line k (ds ! k) E idx) 0)"
    unfolding sums_of_def eval.simps(13) line_def
    by (rule yields_reduce [OF e _ k, where f = add_i and init = "\<lambda>dt. 0"])
       (simp_all add: reduce_sum_def fun_eq_iff)
  have recip: "yields (eval fs env (Divide (const_i64 (2 ^ nat const_m)) (sums_of ax data scale zp)))
     (DInt 64) (ds[k := 1])
     (\<lambda>idx. div_i (DInt 64) (2 ^ 60) (foldr (add_i (DInt 64)) (line k (ds ! k) E idx) 0))"
    unfolding eval.simps(7) divide_val_tensors [OF yields_const_i64 sums]
    by (rule yields_cong [OF yields_scalar_l [OF yields_const_i64 sums]])
       (simp_all add: divisor_ok_def const_m_def nz)
  have scaled: "yields (eval fs env (Multiply (Divide (const_i64 (2 ^ nat const_m))
        (sums_of ax data scale zp)) (exps_of ax data scale zp))) (DInt 64) ds
     (\<lambda>idx. mul_i (DInt 64)
        (div_i (DInt 64) (2 ^ 60) (foldr (add_i (DInt 64)) (line k (ds ! k) E idx) 0)) (E idx))"
    unfolding eval.simps(6)
    by (rule yields_cong [OF yields_reduced_l [OF recip e _ kl]])
       (simp_all add: always_def line0)
  show ?thesis
    unfolding output_of_def eval.simps(9) out_val_def
    by (rule yields_cong [OF yields_scalar_r [OF scaled yields_const_i64]])
       (simp_all add: shift_ok_def const_m_def const_bits_def)
qed

subsection \<open>Bounds\<close>

lemma foldr_max_ge: "x \<in> set xs \<Longrightarrow> x \<le> foldr max xs (m::int)"
  by (induction xs) auto

lemma foldr_max_le: "\<forall>x\<in>set xs. x \<le> U \<Longrightarrow> m \<le> U \<Longrightarrow> foldr max xs (m::int) \<le> U"
  by (induction xs) auto

lemma valid_index_update:
  assumes "valid_index ds idx" "j < ds ! k"
  shows "valid_index ds (idx[k := j])"
  unfolding valid_index_nth
proof (intro conjI allI impI)
  from assms show "length (idx[k := j]) = length ds"
    by (simp add: valid_index_nth)
  fix i assume "i < length ds"
  with assms show "idx[k := j] ! i < ds ! i"
    by (cases "i = k") (simp_all add: valid_index_nth)
qed

lemma centered_at_exact:
  assumes "- 128 \<le> g idx" "g idx \<le> 127" "- (2 ^ 31) \<le> zv" "zv < 2 ^ 31"
  shows "centered_at g zv idx = g idx - zv"
  using assms by (simp add: centered_at_def sub_i_def wrap64_id)

lemma shifted_at_bounds:
  assumes idx: "valid_index ds idx" and k: "k < length ds"
      and range: "\<And>j. valid_index ds j \<Longrightarrow> - 128 \<le> g j \<and> g j \<le> 127"
      and zv: "- (2 ^ 31) \<le> zv" "zv < 2 ^ 31"
  shows "- 255 \<le> shifted_at g zv k (ds ! k) idx \<and> shifted_at g zv k (ds ! k) idx \<le> 0"
proof -
  let ?M = "foldr max (line k (ds ! k) (centered_at g zv) idx) (min_value (DInt 64))"
  have c: "centered_at g zv j = g j - zv" if "valid_index ds j" for j
    using range [OF that] zv by (intro centered_at_exact) simp_all
  from idx k have ik: "idx ! k < ds ! k" "idx[k := idx ! k] = idx"
    by (simp_all add: valid_index_nth)
  then have "centered_at g zv idx \<in> set (line k (ds ! k) (centered_at g zv) idx)"
    unfolding line_def set_map by (intro image_eqI [where x = "idx ! k"]) simp_all
  then have lower: "centered_at g zv idx \<le> ?M"
    by (rule foldr_max_ge)
  have "\<forall>x\<in>set (line k (ds ! k) (centered_at g zv) idx). x \<le> 127 - zv"
  proof
    fix x assume "x \<in> set (line k (ds ! k) (centered_at g zv) idx)"
    then obtain j where j: "j < ds ! k" "x = centered_at g zv (idx[k := j])"
      by (auto simp: line_def)
    from valid_index_update [OF idx j(1)] have v: "valid_index ds (idx[k := j])" .
    from c [OF v] range [OF v] j show "x \<le> 127 - zv" by simp
  qed
  then have upper: "?M \<le> 127 - zv"
    using zv by (intro foldr_max_le) simp_all
  from c [OF idx] range [OF idx] lower upper
  have "- 255 \<le> centered_at g zv idx - ?M \<and> centered_at g zv idx - ?M \<le> 0"
    by simp
  then show ?thesis
    by (simp add: shifted_at_def sub_i_def wrap64_id)
qed

lemma adjusted_val_exact:
  assumes "- 255 \<le> x" "x \<le> 0"
  shows "adjusted_val x = x + x div 2 - x div 16"
proof -
  from assms have "- 383 \<le> x + x div 2 \<and> x + x div 2 \<le> 0"
    by linarith
  then have a: "wrap (DInt 64) (x + x div 2) = x + x div 2"
    by (intro wrap64_id) simp_all
  from assms have "- 367 \<le> x + x div 2 - x div 16 \<and> x + x div 2 - x div 16 \<le> 0"
    by linarith
  then have b: "wrap (DInt 64) (x + x div 2 - x div 16) = x + x div 2 - x div 16"
    by (intro wrap64_id) simp_all
  show ?thesis
    by (simp add: adjusted_val_def sub_i_def add_i_def shr_i_def a b)
qed

lemma adjusted_val_bounds:
  assumes "- 255 \<le> x" "x \<le> 0"
  shows "- 367 \<le> adjusted_val x \<and> adjusted_val x \<le> 0"
  unfolding adjusted_val_exact [OF assms] using assms by linarith

lemma tdiv_nonpos_neg:
  assumes "xp \<le> 0" "0 < x0"
  shows "tdiv xp (- x0) = (- xp) div x0"
  using assms by (cases "xp = 0") (simp_all add: tdiv_def)

lemma q_val_exact:
  assumes "- 367 \<le> xp" "xp \<le> 0" "0 < x0" "x0 < 2 ^ 63"
  shows "q_val xp x0 = (- xp) div x0"
proof -
  have n: "wrap (DInt 64) (- x0) = - x0"
    using assms by (intro wrap64_id) simp_all
  have "0 \<le> (- xp) div x0" using assms by (simp add: pos_imp_zdiv_nonneg_iff)
  moreover have "(- xp) div x0 \<le> (- xp) div 1" using assms by (intro zdiv_mono2) simp_all
  ultimately have "wrap (DInt 64) ((- xp) div x0) = (- xp) div x0"
    using assms by (intro wrap64_id) simp_all
  then show ?thesis
    using assms by (simp add: q_val_def div_i_def n tdiv_nonpos_neg)
qed

lemma q_val_bounds:
  assumes "- 367 \<le> xp" "xp \<le> 0" "12 \<le> x0" "x0 < 2 ^ 63"
  shows "0 \<le> q_val xp x0 \<and> q_val xp x0 \<le> 30"
proof -
  from assms have eq: "q_val xp x0 = (- xp) div x0"
    by (intro q_val_exact) simp_all
  have "(- xp) div x0 \<le> 367 div x0"
    using assms by (intro zdiv_mono1) simp_all
  also have "\<dots> \<le> 367 div 12"
    using assms by (intro zdiv_mono2) simp_all
  finally have "(- xp) div x0 \<le> 30" by simp
  moreover have "0 \<le> (- xp) div x0" using assms by (simp add: pos_imp_zdiv_nonneg_iff)
  ultimately show ?thesis by (simp add: eq)
qed

lemma quotient_yields:
  assumes data: "eval fs env data = Inr (VTensor (DInt 8) d)"
      and range: "\<forall>idx. valid_index (dims d) idx \<longrightarrow> - 128 \<le> elem d idx \<and> elem d idx \<le> 127"
      and zp: "eval fs env input_zero_point = Inr (VTensor (DInt 32) (scalar_tensor zv))"
      and zv: "- (2 ^ 31) \<le> zv" "zv < 2 ^ 31"
      and scale: "eval fs env input_scale = Inr (VFloat s)"
      and x0: "f_to_int fs (f_round fs (f_div fs (f_const fs 1) s)) = Some x0"
      and x0_range: "12 \<le> x0" "x0 < 2 ^ 63"
      and ax: "real_axis (length (dims d)) ax = Some k"
  defines "XP \<equiv> \<lambda>idx. adjusted_val (shifted_at (elem d) zv k (dims d ! k) idx)"
  shows "yields (eval fs env (q_of ax data input_scale input_zero_point)) (DInt 64) (dims d)
           (\<lambda>idx. q_val (XP idx) x0)"
    and "yields (eval fs env (Subtract (const_i64 const_n)
             (q_of ax data input_scale input_zero_point))) (DInt 64) (dims d)
           (\<lambda>idx. 30 - q_val (XP idx) x0)"
    and "yields (eval fs env (exps_of ax data input_scale input_zero_point)) (DInt 64) (dims d)
           (\<lambda>idx. exp_val (XP idx) x0)"
    and "\<And>idx. valid_index (dims d) idx \<Longrightarrow> 0 \<le> q_val (XP idx) x0 \<and> q_val (XP idx) x0 \<le> 30"
proof -
  let ?ds = "dims d"
  have yd: "yields (eval fs env data) (DInt 8) ?ds (elem d)"
    using data by (simp add: yields_def)
  have yz: "yields (eval fs env input_zero_point) (DInt 32) [] (\<lambda>idx. zv)"
    using zp by (simp add: yields_def scalar_tensor_def)
  have xp: "yields (eval fs env (x_p_of ax data input_zero_point)) (DInt 64) ?ds XP"
    unfolding XP_def by (rule yields_x_p [OF yd yz ax])
  have w: "wrap (DInt 64) x0 = x0"
    using x0_range by (intro wrap64_id) simp_all
  have y0: "yields (eval fs env (x_0_of input_scale)) (DInt 64) [] (\<lambda>idx. x0)"
    using yields_x_0 [OF scale x0] by (simp add: w)
  have nz: "wrap (DInt 64) (- x0) \<noteq> 0"
  proof -
    have "wrap (DInt 64) (- x0) = - x0"
      using x0_range by (intro wrap64_id) simp_all
    then show ?thesis using x0_range by simp
  qed
  have xp_bounds: "- 367 \<le> XP idx \<and> XP idx \<le> 0" if "valid_index ?ds idx" for idx
  proof -
    from shifted_at_bounds [OF that real_axis_less [OF ax], of "elem d" zv] range zv
    have "- 255 \<le> shifted_at (elem d) zv k (?ds ! k) idx
            \<and> shifted_at (elem d) zv k (?ds ! k) idx \<le> 0"
      by simp
    then show ?thesis unfolding XP_def by (intro adjusted_val_bounds) simp_all
  qed
  show qb: "0 \<le> q_val (XP idx) x0 \<and> q_val (XP idx) x0 \<le> 30" if "valid_index ?ds idx" for idx
    using xp_bounds [OF that] x0_range by (intro q_val_bounds) simp_all
  have am: "sub_i (DInt 64) 30 (q_val (XP idx) x0) = 30 - q_val (XP idx) x0"
    if "valid_index ?ds idx" for idx
    using qb [OF that] by (simp add: sub_i_def wrap64_id)
  show "yields (eval fs env (q_of ax data input_scale input_zero_point)) (DInt 64) ?ds
          (\<lambda>idx. q_val (XP idx) x0)"
    by (rule yields_q [OF xp y0 nz])
  show "yields (eval fs env (Subtract (const_i64 const_n)
            (q_of ax data input_scale input_zero_point))) (DInt 64) ?ds
          (\<lambda>idx. 30 - q_val (XP idx) x0)"
    by (rule yields_cong [OF yields_amount [OF xp y0 nz]]) (rule am)
  show "yields (eval fs env (exps_of ax data input_scale input_zero_point)) (DInt 64) ?ds
          (\<lambda>idx. exp_val (XP idx) x0)"
  proof (rule yields_exps [OF xp y0 nz])
    fix idx assume "valid_index ?ds idx"
    from qb [OF this] am [OF this]
    show "0 \<le> sub_i (DInt 64) 30 (q_val (XP idx) x0)
            \<and> sub_i (DInt 64) 30 (q_val (XP idx) x0) < 64"
      by simp
  qed
qed

subsection \<open>Concrete operands\<close>

lemma upt_2: "[0..<2] = [0, 1]" and upt_3: "[0..<3] = [0, 1, 2]"
  by (simp_all add: upt_rec)

lemma valid_index_1: "valid_index [n] idx \<longleftrightarrow> (\<exists>i<n. idx = [i])"
  by (auto simp: valid_index_Cons)

lemma vector_simps: "dims (vector xs) = [length xs]" "elem (vector xs) [i] = xs ! i"
  by (simp_all add: vector_def)

lemma vector_range:
  assumes "\<forall>x\<in>set xs. lo \<le> x \<and> x \<le> hi"
  shows "\<forall>idx. valid_index (dims (vector xs)) idx \<longrightarrow> lo \<le> elem (vector xs) idx \<and> elem (vector xs) idx \<le> hi"
  using assms by (auto simp: vector_simps valid_index_1)

lemma floor_rat_numeral: "\<lfloor>numeral a / numeral b :: rat\<rfloor> = numeral a div numeral b"
  using floor_divide_of_int_eq [of "numeral a" "numeral b", where ?'a = rat] by simp

lemma exact_reciprocal:
  "f_to_int exact_ops (f_round exact_ops (f_div exact_ops (f_const exact_ops 1) (1 / 256))) = Some 256"
  "f_to_int exact_ops (f_round exact_ops (f_div exact_ops (f_const exact_ops 1) 1)) = Some 1"
  "f_to_int exact_ops (f_round exact_ops (f_div exact_ops (f_const exact_ops 1) 4)) = Some 0"
  by (simp_all add: exact_ops_def floor_rat_numeral)

lemmas kernel_defs =
  adjusted_val_def shifted_at_def centered_at_def line_def q_val_def base_val_def exp_val_def
  out_val_def sub_i_def add_i_def mul_i_def div_i_def shl_i_def shr_i_def tdiv_def wrap.simps

lemma operand_yields:
  "yields (eval exact_ops (operands d s z) (Var ''data'')) (DInt 8) (dims d) (elem d)"
  "yields (eval exact_ops (operands d s z) (Var ''zero_point'')) (DInt 32) [] (\<lambda>idx. z)"
  by (simp_all add: yields_def operands_simps scalar_tensor_def)

lemma x_0_yields:
  assumes "f_to_int exact_ops (f_round exact_ops (f_div exact_ops (f_const exact_ops 1) s)) = Some v"
      and "wrap (DInt 64) v = x0"
  shows "yields (eval exact_ops (operands d s z) (x_0_of (Var ''scale''))) (DInt 64) [] (\<lambda>idx. x0)"
  using yields_x_0 [of exact_ops "operands d s z" "Var ''scale''" s v] assms
  by (simp add: operands_simps)

lemma real_axis_0: "real_axis (length (dims (vector (x # xs)))) 0 = Some 0"
  by (simp add: real_axis_def vector_simps)

lemma exps_error:
  assumes "eval fs env (x_p_of ax data zp) = Inr v"
      and "eval fs env (q_of ax data scale zp) = Inl e"
  shows "eval fs env (exps_of ax data scale zp) = Inl e"
  using assms by (simp add: exps_of_def x_b_of_def r_of_def bind1_simps bind2_simps)

lemma output_error:
  assumes "eval fs env (exps_of ax data scale zp) = Inl e"
  shows "eval fs env (output_of ax data scale zp) = Inl e"
  using assms
  by (simp add: output_of_def sums_of_def const_i64_def MakeConstantScalar_def const_val_def
      bind1_simps bind2_simps)

lemma exact_reciprocal_8:
  "f_to_int exact_ops (f_round exact_ops (f_div exact_ops (f_const exact_ops 1) 8)) = Some 0"
  by (simp add: exact_ops_def floor_rat_numeral)

lemma example_exp_val:
  assumes "i < 3"
  shows "exp_val (adjusted_val (shifted_at (elem (vector [10, 20, 5])) 0 0 3 [i])) 256
           = [267361714176, 274877906944, 263066746880] ! i"
proof -
  from assms have "i = 0 \<or> i = 1 \<or> i = 2" by auto
  then show ?thesis
    by (elim disjE) (simp_all add: kernel_defs upt_3 vector_simps)
qed

lemma example_sum:
  "foldr (add_i (DInt 64))
     (line 0 3 (\<lambda>idx. exp_val (adjusted_val (shifted_at (elem (vector [10, 20, 5])) 0 0 3 idx)) 256)
        [i]) 0
   = 805306368000"
  by (simp add: line_def upt_3 example_exp_val add_i_def wrap64_id)

lemma example_out_val:
  "out_val 267361714176 805306368000 = 84"
  "out_val 274877906944 805306368000 = 87"
  "out_val 263066746880 805306368000 = 83"
  by (simp_all add: out_val_def shr_i_def mul_i_def div_i_def tdiv_def wrap64_id)

section \<open>The quotient and the shift amount\<close>

text \<open>
  Claim C3, as stated, fails. For the operand \<open>[22, 0]\<close> with scale 1, so that
  \<open>x0 = 1 > 0\<close>, the quotient at the second element is 31: the shift amount
  \<open>n - q\<close> is negative there and the evaluation of the exponent step is undefined.
\<close>

theorem quotient_exceeds_shift_width_counterexample:
  "eval exact_ops (operands (vector [22, 0]) 1 0) (x_0_of (Var ''scale''))
     = Inr (VTensor (DInt 64) (scalar_tensor 1))
   \<and> (case eval exact_ops (operands (vector [22, 0]) 1 0)
           (q_of 0 (Var ''data'') (Var ''scale'') (Var ''zero_point'')) of
      Inr (VTensor dt q) \<Rightarrow> elem q [1] = 31
    | _ \<Rightarrow> False)
   \<and> eval exact_ops (operands (vector [22, 0]) 1 0)
       (exps_of 0 (Var ''data'') (Var ''scale'') (Var ''zero_point'')) = Inl UndefinedShift"
proof -
  let ?env = "operands (vector [22, 0]) 1 0"
  let ?XP = "\<lambda>idx. adjusted_val (shifted_at (elem (vector [22, 0])) 0 0 (dims (vector [22, 0]) ! 0) idx)"
  have xp: "yields (eval exact_ops ?env (x_p_of 0 (Var ''data'') (Var ''zero_point''))) (DInt 64)
              (dims (vector [22, 0])) ?XP"
    by (rule yields_x_p [OF operand_yields real_axis_0])
  have x0: "yields (eval exact_ops ?env (x_0_of (Var ''scale''))) (DInt 64) [] (\<lambda>idx. 1)"
    by (rule x_0_yields [OF exact_reciprocal(2)]) (simp add: wrap64_id)
  have nz: "wrap (DInt 64) (- 1) \<noteq> 0"
    by (simp add: wrap64_id)
  have v: "valid_index (dims (vector [22, 0])) [1]"
    by (simp add: vector_simps valid_index_1)
  have q1: "q_val (?XP [1]) 1 = 31"
    by (simp add: kernel_defs upt_2 vector_simps)
  from yields_q [OF xp x0 nz] v q1
  have "case eval exact_ops ?env (q_of 0 (Var ''data'') (Var ''scale'') (Var ''zero_point'')) of
          Inr (VTensor dt q) \<Rightarrow> elem q [1] = 31 | _ \<Rightarrow> False"
    by (auto simp: yields_def)
  moreover have "eval exact_ops ?env (exps_of 0 (Var ''data'') (Var ''scale'') (Var ''zero_point''))
                   = Inl UndefinedShift"
    by (rule fails_exps [OF xp x0 nz v]) (use q1 in \<open>simp add: sub_i_def wrap64_id\<close>)
  moreover have "eval exact_ops ?env (x_0_of (Var ''scale''))
                   = Inr (VTensor (DInt 64) (scalar_tensor 1))"
    using exact_reciprocal(2)
    by (simp add: x_0_of_def MakeConstantScalar_def const_val_def operands_simps bind1_simps
        bind2_simps divide_val_def round_val_def cast_val_def wrap64_id)
  ultimately show ?thesis by simp
qed

text \<open>
  Claim C3, amended. For every \<^verbatim>\<open>int8\<close> operand, every scalar \<^verbatim>\<open>int32\<close> zero point and
  every valid axis, when the reciprocal scale \<open>x0\<close> is at least 12 (and an
  \<^verbatim>\<open>int64\<close>), the quotient at every element is between 0 and 30, the shift amount is
  \<open>30 - q\<close>, hence between 0 and 30, and the exponent step evaluates to a tensor.
\<close>

theorem quotient_within_shift_width:
  assumes "eval fs env data = Inr (VTensor (DInt 8) d)"
      and "\<forall>idx. valid_index (dims d) idx \<longrightarrow> - 128 \<le> elem d idx \<and> elem d idx \<le> 127"
      and "eval fs env input_zero_point = Inr (VTensor (DInt 32) (scalar_tensor zv))"
      and "- (2 ^ 31) \<le> zv" "zv < 2 ^ 31"
      and "eval fs env input_scale = Inr (VFloat s)"
      and "f_to_int fs (f_round fs (f_div fs (f_const fs 1) s)) = Some x0"
      and "12 \<le> x0" "x0 < 2 ^ 63"
      and "real_axis (length (dims d)) ax = Some k"
  shows "\<exists>q amount exps.
           eval fs env (q_of ax data input_scale input_zero_point) = Inr (VTensor (DInt 64) q)
         \<and> eval fs env (Subtract (const_i64 const_n) (q_of ax data input_scale input_zero_point))
             = Inr (VTensor (DInt 64) amount)
         \<and> eval fs env (exps_of ax data input_scale input_zero_point)
             = Inr (VTensor (DInt 64) exps)
         \<and> dims q = dims d \<and> dims amount = dims d \<and> dims exps = dims d
         \<and> (\<forall>idx. valid_index (dims d) idx \<longrightarrow>
               0 \<le> elem q idx \<and> elem q idx \<le> 30 \<and> elem amount idx = 30 - elem q idx)"
proof -
  note y = quotient_yields [OF assms]
  from y(1) obtain q where
    q: "eval fs env (q_of ax data input_scale input_zero_point) = Inr (VTensor (DInt 64) q)"
       "dims q = dims d"
       "\<And>idx. valid_index (dims d) idx \<Longrightarrow> elem q idx
          = q_val (adjusted_val (shifted_at (elem d) zv k (dims d ! k) idx)) x0"
    by (auto simp: yields_def)
  from y(2) obtain amount where
    a: "eval fs env (Subtract (const_i64 const_n) (q_of ax data input_scale input_zero_point))
          = Inr (VTensor (DInt 64) amount)"
       "dims amount = dims d"
       "\<And>idx. valid_index (dims d) idx \<Longrightarrow> elem amount idx
          = 30 - q_val (adjusted_val (shifted_at (elem d) zv k (dims d ! k) idx)) x0"
    by (auto simp: yields_def)
  from y(3) obtain exps where
    e: "eval fs env (exps_of ax data input_scale input_zero_point) = Inr (VTensor (DInt 64) exps)"
       "dims exps = dims d"
    by (auto simp: yields_def)
  show ?thesis
    using q a e y(4) by (intro exI [of _ q] exI [of _ amount] exI [of _ exps]) simp
qed

theorem quotient_within_shift_width_witness:
  "(case eval exact_ops (operands (vector [10, 20, 5]) (1 / 256) 0)
           (q_of 0 (Var ''data'') (Var ''scale'') (Var ''zero_point'')) of
      Inr (VTensor dt q) \<Rightarrow> 0 \<le> elem q [2] \<and> elem q [2] \<le> 30
    | _ \<Rightarrow> False)
   \<and> \<not> isl (eval exact_ops (operands (vector [10, 20, 5]) (1 / 256) 0)
           (exps_of 0 (Var ''data'') (Var ''scale'') (Var ''zero_point'')))"
proof -
  let ?env = "operands (vector [10, 20, 5]) (1 / 256) 0"
  have d: "eval exact_ops ?env (Var ''data'') = Inr (VTensor (DInt 8) (vector [10, 20, 5]))"
    by (simp add: operands_simps)
  have r: "\<forall>idx. valid_index (dims (vector [10, 20, 5])) idx \<longrightarrow>
             - 128 \<le> elem (vector [10, 20, 5]) idx \<and> elem (vector [10, 20, 5]) idx \<le> 127"
    by (rule vector_range) simp
  have z: "eval exact_ops ?env (Var ''zero_point'') = Inr (VTensor (DInt 32) (scalar_tensor 0))"
    by (simp add: operands_simps)
  have s: "eval exact_ops ?env (Var ''scale'') = Inr (VFloat (1 / 256))"
    by (simp add: operands_simps)
  have k: "real_axis (length (dims (vector [10, 20, 5]))) 0 = Some 0"
    by (simp add: real_axis_def vector_simps)
  have v: "valid_index (dims (vector [10, 20, 5])) [2]"
    by (simp add: vector_simps valid_index_1)
  from quotient_within_shift_width [OF d r z _ _ s exact_reciprocal(1) _ _ k] v
  show ?thesis by auto
qed

section \<open>A reciprocal scale of zero\<close>

text \<open>
  Claim C2, as stated, fails. With the constant scale 4 the reciprocal scale evaluates to
  0, and the lowering does not fail: it returns a fragment.
\<close>

theorem zero_reciprocal_not_rejected_counterexample:
  "\<not> isl (QnnSoftmaxCanonicalize \<lparr>axis = 0\<rparr>
       [Var ''data'', Constant (DFloat 32) (FloatVal 4), Var ''zero_point'',
        Var ''output_scale'', Var ''output_zero_point'']
       [TensorType [IntImm 3] (DInt 8), TensorType [] (DFloat 32), TensorType [] (DInt 32),
        TensorType [] (DFloat 32), TensorType [] (DInt 32)])
   \<and> eval exact_ops (operands (vector [10, 20, 5]) 4 0)
         (x_0_of (Constant (DFloat 32) (FloatVal 4)))
       = Inr (VTensor (DInt 64) (scalar_tensor 0))"
  using exact_reciprocal(3)
  by (simp add: QnnSoftmaxCanonicalize_def x_0_of_def MakeConstantScalar_def const_val_def
      bind1_simps bind2_simps divide_val_def round_val_def cast_val_def exact_ops_def
      wrap64_id)

lemma x_p_axis_error:
  assumes "yields (eval fs env data) (DInt 8) ds g"
      and "yields (eval fs env zp) (DInt 32) [] (\<lambda>idx. zv)"
      and "real_axis (length ds) ax = None"
  shows "eval fs env (x_p_of ax data zp) = Inl AxisOutOfRange"
proof -
  from yields_quantized_data [OF assms(1,2)] obtain t where
    "eval fs env (quantized_data_of data zp) = Inr (VTensor (DInt 64) t)" "dims t = ds"
    by (auto simp: yields_def)
  with assms(3) show ?thesis
    by (simp add: x_p_of_def Let_def x_of_def max_of_def bind1_simps bind2_simps
        reduce_val_def reduce_max_def reduce_keepdims_def)
qed

lemma output_error_x_p:
  assumes "eval fs env (x_p_of ax data zp) = Inl e"
  shows "eval fs env (output_of ax data scale zp) = Inl e"
  using assms
  by (simp add: output_of_def sums_of_def exps_of_def x_b_of_def r_of_def const_i64_def
      MakeConstantScalar_def const_val_def bind1_simps bind2_simps)

text \<open>
  Claim C2, amended. The lowering does not look at the value of the scale: for every call
  with five operands and the tensor type of the data operand it returns the requantization
  fragment, also when the reciprocal scale evaluates to 0. In that case, for an operand with
  at least one element, the wide output of the returned fragment never evaluates to a
  value: when the axis indexes a dimension of the operand, the quotient step and with it
  the wide output fail with a division by zero, and otherwise the reduction fails on the
  axis.
\<close>

theorem lowering_ignores_scale_value:
  "QnnSoftmaxCanonicalize attrs
     [data, input_scale, input_zero_point, output_scale, output_zero_point]
     (TensorType shape dt # arg_types)
   = Inr (Requantize
            (Cast (output_of (axis attrs) data input_scale input_zero_point) (DInt 32))
            shape (Constant (DFloat 32) (FloatVal (1 / 256)))
            (Constant (DInt 64) (IntVal 0)) output_scale output_zero_point (DInt 8) 0)
   \<and> (eval fs env data = Inr (VTensor (DInt 8) d)
      \<and> eval fs env input_zero_point = Inr (VTensor (DInt 32) (scalar_tensor zv))
      \<and> eval fs env input_scale = Inr (VFloat s)
      \<and> f_to_int fs (f_round fs (f_div fs (f_const fs 1) s)) = Some 0
      \<and> valid_index (dims d) idx \<longrightarrow>
        isl (eval fs env (output_of (axis attrs) data input_scale input_zero_point))
        \<and> (real_axis (length (dims d)) (axis attrs) \<noteq> None \<longrightarrow>
             eval fs env (q_of (axis attrs) data input_scale input_zero_point)
               = Inl DivisionByZero
             \<and> eval fs env (output_of (axis attrs) data input_scale input_zero_point)
               = Inl DivisionByZero)
        \<and> (real_axis (length (dims d)) (axis attrs) = None \<longrightarrow>
             eval fs env (output_of (axis attrs) data input_scale input_zero_point)
               = Inl AxisOutOfRange))"
proof (intro conjI impI)
  show "QnnSoftmaxCanonicalize attrs
     [data, input_scale, input_zero_point, output_scale, output_zero_point]
     (TensorType shape dt # arg_types)
   = Inr (Requantize
            (Cast (output_of (axis attrs) data input_scale input_zero_point) (DInt 32))
            shape (Constant (DFloat 32) (FloatVal (1 / 256)))
            (Constant (DInt 64) (IntVal 0)) output_scale output_zero_point (DInt 8) 0)"
    by (rule QnnSoftmaxCanonicalize_fragment)
next
  assume h: "eval fs env data = Inr (VTensor (DInt 8) d)
      \<and> eval fs env input_zero_point = Inr (VTensor (DInt 32) (scalar_tensor zv))
      \<and> eval fs env input_scale = Inr (VFloat s)
      \<and> f_to_int fs (f_round fs (f_div fs (f_const fs 1) s)) = Some 0
      \<and> valid_index (dims d) idx"
  have yd: "yields (eval fs env data) (DInt 8) (dims d) (elem d)"
    using h by (simp add: yields_def)
  have yz: "yields (eval fs env input_zero_point) (DInt 32) [] (\<lambda>idx. zv)"
    using h by (simp add: yields_def scalar_tensor_def)
  have y0: "yields (eval fs env (x_0_of input_scale)) (DInt 64) [] (\<lambda>idx. 0)"
    using yields_x_0 [of fs env input_scale s 0] h by simp
  have valid: "eval fs env (q_of (axis attrs) data input_scale input_zero_point)
                 = Inl DivisionByZero
               \<and> eval fs env (output_of (axis attrs) data input_scale input_zero_point)
                 = Inl DivisionByZero"
    if "real_axis (length (dims d)) (axis attrs) \<noteq> None"
  proof -
    from that obtain k where ax: "real_axis (length (dims d)) (axis attrs) = Some k"
      by auto
    note xp = yields_x_p [OF yd yz ax]
    from h have nonempty: "valid_index (dims d) idx" by simp
    have q: "eval fs env (q_of (axis attrs) data input_scale input_zero_point)
               = Inl DivisionByZero"
      by (rule fails_q [OF xp y0 _ nonempty]) simp
    from xp obtain v where "eval fs env (x_p_of (axis attrs) data input_zero_point) = Inr v"
      by (auto simp: yields_def)
    from output_error [OF exps_error [OF this q]] q show ?thesis by simp
  qed
  have invalid: "eval fs env (output_of (axis attrs) data input_scale input_zero_point)
                   = Inl AxisOutOfRange"
    if "real_axis (length (dims d)) (axis attrs) = None"
    by (rule output_error_x_p [OF x_p_axis_error [OF yd yz that]])
  show "isl (eval fs env (output_of (axis attrs) data input_scale input_zero_point))"
    using valid invalid by (cases "real_axis (length (dims d)) (axis attrs)") simp_all
  {
    assume "real_axis (length (dims d)) (axis attrs) \<noteq> None"
    from valid [OF this]
    show "eval fs env (q_of (axis attrs) data input_scale input_zero_point)
            = Inl DivisionByZero"
      and "eval fs env (output_of (axis attrs) data input_scale input_zero_point)
            = Inl DivisionByZero"
      by simp_all
  }
  {
    assume "real_axis (length (dims d)) (axis attrs) = None"
    then show "eval fs env (output_of (axis attrs) data input_scale input_zero_point)
                 = Inl AxisOutOfRange"
      by (rule invalid)
  }
qed

theorem lowering_ignores_scale_value_witness:
  "QnnSoftmaxCanonicalize \<lparr>axis = 0\<rparr>
     [Var ''data'', Var ''scale'', Var ''zero_point'', Var ''output_scale'',
      Var ''output_zero_point'']
     [TensorType [IntImm 3] (DInt 8)]
   = Inr (Requantize
            (Cast (output_of 0 (Var ''data'') (Var ''scale'') (Var ''zero_point'')) (DInt 32))
            [IntImm 3] (Constant (DFloat 32) (FloatVal (1 / 256)))
            (Constant (DInt 64) (IntVal 0)) (Var ''output_scale'') (Var ''output_zero_point'')
            (DInt 8) 0)
   \<and> eval exact_ops (operands (vector [10, 20, 5]) 8 0)
       (q_of 0 (Var ''data'') (Var ''scale'') (Var ''zero_point'')) = Inl DivisionByZero
   \<and> eval exact_ops (operands (vector [10, 20, 5]) 8 0)
       (output_of 0 (Var ''data'') (Var ''scale'') (Var ''zero_point'')) = Inl DivisionByZero
   \<and> eval exact_ops (operands (vector [10, 20, 5]) 8 0)
       (output_of 1 (Var ''data'') (Var ''scale'') (Var ''zero_point'')) = Inl AxisOutOfRange"
proof -
  let ?env = "operands (vector [10, 20, 5]) 8 0"
  have d: "eval exact_ops ?env (Var ''data'') = Inr (VTensor (DInt 8) (vector [10, 20, 5]))"
    by (simp add: operands_simps)
  have z: "eval exact_ops ?env (Var ''zero_point'') = Inr (VTensor (DInt 32) (scalar_tensor 0))"
    by (simp add: operands_simps)
  have s: "eval exact_ops ?env (Var ''scale'') = Inr (VFloat 8)"
    by (simp add: operands_simps)
  have k: "real_axis (length (dims (vector [10, 20, 5]))) 0 = Some 0"
          "real_axis (length (dims (vector [10, 20, 5]))) 1 = None"
    by (simp_all add: real_axis_def vector_simps)
  have v: "valid_index (dims (vector [10, 20, 5])) [0]"
    by (simp add: vector_simps valid_index_1)
  from lowering_ignores_scale_value
         [of "\<lparr>axis = 0\<rparr>" "Var ''data''" "Var ''scale''" "Var ''zero_point''"
             "Var ''output_scale''" "Var ''output_zero_point''" "[IntImm 3]" "DInt 8" "[]"
             exact_ops ?env "vector [10, 20, 5]" 0 8 "[0]"]
       lowering_ignores_scale_value
         [of "\<lparr>axis = 1\<rparr>" "Var ''data''" "Var ''scale''" "Var ''zero_point''"
             "Var ''output_scale''" "Var ''output_zero_point''" "[IntImm 3]" "DInt 8" "[]"
             exact_ops ?env "vector [10, 20, 5]" 0 8 "[0]"]
       d z s exact_reciprocal_8 k v
  show ?thesis by simp
qed

section \<open>The rank order of an example\<close>

lemma example_values:
  "(case eval exact_ops (operands (vector [10, 20, 5]) (1 / 256) 0)
           (exps_of 0 (Var ''data'') (Var ''scale'') (Var ''zero_point'')) of
      Inr (VTensor dt e) \<Rightarrow>
        elem e [0] = 267361714176 \<and> elem e [1] = 274877906944 \<and> elem e [2] = 263066746880
        \<and> elem e [0] < elem e [1] \<and> elem e [2] < elem e [1]
    | _ \<Rightarrow> False)
   \<and> (case eval exact_ops (operands (vector [10, 20, 5]) (1 / 256) 0)
           (output_of 0 (Var ''data'') (Var ''scale'') (Var ''zero_point'')) of
      Inr (VTensor dt out) \<Rightarrow>
        elem out [0] = 84 \<and> elem out [1] = 87 \<and> elem out [2] = 83
        \<and> elem out [0] < elem out [1] \<and> elem out [2] < elem out [1]
    | _ \<Rightarrow> False)"
proof -
  let ?d = "vector [10, 20, 5]"
  let ?env = "operands ?d (1 / 256) 0"
  let ?E = "\<lambda>idx. exp_val (adjusted_val (shifted_at (elem ?d) 0 0 3 idx)) 256"
  have n: "dims ?d ! 0 = 3" "dims ?d = [3]"
    by (simp_all add: vector_simps)
  have d: "eval exact_ops ?env (Var ''data'') = Inr (VTensor (DInt 8) ?d)"
    by (simp add: operands_simps)
  have r: "\<forall>idx. valid_index (dims ?d) idx \<longrightarrow> - 128 \<le> elem ?d idx \<and> elem ?d idx \<le> 127"
    by (rule vector_range) simp
  have z: "eval exact_ops ?env (Var ''zero_point'') = Inr (VTensor (DInt 32) (scalar_tensor 0))"
    by (simp add: operands_simps)
  have s: "eval exact_ops ?env (Var ''scale'') = Inr (VFloat (1 / 256))"
    by (simp add: operands_simps)
  have e: "yields (eval exact_ops ?env (exps_of 0 (Var ''data'') (Var ''scale'') (Var ''zero_point'')))
             (DInt 64) (dims ?d) ?E"
    using quotient_yields(3) [OF d r z _ _ s exact_reciprocal(1) _ _ real_axis_0]
    by (simp only: n(1)) simp
  have out: "yields (eval exact_ops ?env (output_of 0 (Var ''data'') (Var ''scale'') (Var ''zero_point'')))
             (DInt 64) (dims ?d)
             (\<lambda>idx. out_val (?E idx) (foldr (add_i (DInt 64)) (line 0 (dims ?d ! 0) ?E idx) 0))"
  proof (rule yields_output [OF e real_axis_0])
    fix idx assume "valid_index ((dims ?d)[0 := 1]) idx"
    then obtain i where "idx = [i]"
      by (auto simp: vector_simps valid_index_1)
    then show "foldr (add_i (DInt 64)) (line 0 (dims ?d ! 0) ?E idx) 0 \<noteq> 0"
      by (simp add: n(1) example_sum)
  qed
  have v: "valid_index (dims ?d) [0]" "valid_index (dims ?d) [1]" "valid_index (dims ?d) [2]"
    by (simp_all add: vector_simps valid_index_1)
  from e obtain te where
    te: "eval exact_ops ?env (exps_of 0 (Var ''data'') (Var ''scale'') (Var ''zero_point''))
           = Inr (VTensor (DInt 64) te)"
    and el: "\<And>idx. valid_index (dims ?d) idx \<Longrightarrow> elem te idx = ?E idx"
    by (auto simp: yields_def)
  have exps: "elem te [0] = 267361714176" "elem te [1] = 274877906944" "elem te [2] = 263066746880"
    using el [OF v(1)] el [OF v(2)] el [OF v(3)]
      example_exp_val [of 0] example_exp_val [of 1] example_exp_val [of 2]
    by simp_all
  from out obtain t where
    t: "eval exact_ops ?env (output_of 0 (Var ''data'') (Var ''scale'') (Var ''zero_point''))
           = Inr (VTensor (DInt 64) t)"
    and ol: "\<And>idx. valid_index (dims ?d) idx \<Longrightarrow>
               elem t idx = out_val (?E idx) (foldr (add_i (DInt 64)) (line 0 (dims ?d ! 0) ?E idx) 0)"
    by (auto simp: yields_def)
  have outs: "elem t [0] = 84" "elem t [1] = 87" "elem t [2] = 83"
    using ol [OF v(1)] ol [OF v(2)] ol [OF v(3)]
      example_exp_val [of 0] example_exp_val [of 1] example_exp_val [of 2]
    by (simp_all add: n(1) example_sum example_out_val)
  from exps outs show ?thesis
    by (simp add: te t)
qed

text \<open>
  Claim C4. For the operand \<open>[10, 20, 5]\<close> with scale \<open>1 / 256\<close>, zero point 0 and
  axis 0, the lowering returns a fragment whose exponent approximation and whose normalized
  wide output both evaluate to a tensor that is largest at the element 20, the second one.
\<close>

theorem rank_order_example:
  "case QnnSoftmaxCanonicalize \<lparr>axis = 0\<rparr>
          [Var ''data'', Var ''scale'', Var ''zero_point'', Var ''output_scale'',
           Var ''output_zero_point'']
          [TensorType [IntImm 3] (DInt 8), TensorType [] (DFloat 32), TensorType [] (DInt 32),
           TensorType [] (DFloat 32), TensorType [] (DInt 32)] of
     Inl err \<Rightarrow> False
   | Inr fragment \<Rightarrow>
       (case wide_output fragment of
          None \<Rightarrow> False
        | Some wide \<Rightarrow>
            (case exp_approx wide of
               None \<Rightarrow> False
             | Some exps \<Rightarrow>
                 (case eval exact_ops (operands (vector [10, 20, 5]) (1 / 256) 0) exps of
                    Inr (VTensor dt e) \<Rightarrow>
                      elem e [0] = 267361714176 \<and> elem e [1] = 274877906944
                      \<and> elem e [2] = 263066746880
                      \<and> elem e [0] < elem e [1] \<and> elem e [2] < elem e [1]
                  | _ \<Rightarrow> False)
                 \<and> (case eval exact_ops (operands (vector [10, 20, 5]) (1 / 256) 0) wide of
                      Inr (VTensor dt out) \<Rightarrow>
                        elem out [0] = 84 \<and> elem out [1] = 87 \<and> elem out [2] = 83
                        \<and> elem out [0] < elem out [1] \<and> elem out [2] < elem out [1]
                    | _ \<Rightarrow> False)))"
proof -
  have e: "exp_approx (output_of 0 (Var ''data'') (Var ''scale'') (Var ''zero_point''))
             = Some (exps_of 0 (Var ''data'') (Var ''scale'') (Var ''zero_point''))"
    by (simp add: output_of_def)
  from example_values show ?thesis
    by (simp add: QnnSoftmaxCanonicalize_fragment e)
qed

section \<open>The element types of the fragment\<close>

lemma dtype_of_locals:
  assumes "dtype_of \<Gamma> data = Some (DInt 8)" "dtype_of \<Gamma> input_scale = Some (DFloat 32)"
      and "dtype_of \<Gamma> input_zero_point = Some (DInt 32)"
  shows "dtype_of \<Gamma> (quantized_data_of data input_zero_point) = Some (DInt 64)"
    and "dtype_of \<Gamma> (x_0_of input_scale) = Some (DInt 64)"
    and "dtype_of \<Gamma> (max_of ax data input_zero_point) = Some (DInt 64)"
    and "dtype_of \<Gamma> (x_of ax data input_zero_point) = Some (DInt 64)"
    and "dtype_of \<Gamma> (x_p_of ax data input_zero_point) = Some (DInt 64)"
    and "dtype_of \<Gamma> (q_of ax data input_scale input_zero_point) = Some (DInt 64)"
    and "dtype_of \<Gamma> (r_of ax data input_scale input_zero_point) = Some (DInt 64)"
    and "dtype_of \<Gamma> (x_b_of ax data input_scale input_zero_point) = Some (DInt 64)"
    and "dtype_of \<Gamma> (exps_of ax data input_scale input_zero_point) = Some (DInt 64)"
    and "dtype_of \<Gamma> (sums_of ax data input_scale input_zero_point) = Some (DInt 64)"
    and "dtype_of \<Gamma> (output_of ax data input_scale input_zero_point) = Some (DInt 64)"
proof -
  show qd: "dtype_of \<Gamma> (quantized_data_of data input_zero_point) = Some (DInt 64)"
    using assms by (simp add: quantized_data_of_def)
  show x0: "dtype_of \<Gamma> (x_0_of input_scale) = Some (DInt 64)"
    using assms by (simp add: x_0_of_def MakeConstantScalar_def)
  show mx: "dtype_of \<Gamma> (max_of ax data input_zero_point) = Some (DInt 64)"
    by (simp add: max_of_def qd)
  show x: "dtype_of \<Gamma> (x_of ax data input_zero_point) = Some (DInt 64)"
    by (simp add: x_of_def qd mx)
  show xp: "dtype_of \<Gamma> (x_p_of ax data input_zero_point) = Some (DInt 64)"
    by (simp add: x_p_of_def Let_def x const_i64_def MakeConstantScalar_def)
  show q: "dtype_of \<Gamma> (q_of ax data input_scale input_zero_point) = Some (DInt 64)"
    by (simp add: q_of_def xp x0)
  show r: "dtype_of \<Gamma> (r_of ax data input_scale input_zero_point) = Some (DInt 64)"
    by (simp add: r_of_def xp q x0)
  show xb: "dtype_of \<Gamma> (x_b_of ax data input_scale input_zero_point) = Some (DInt 64)"
    by (simp add: x_b_of_def r x0 const_i64_def MakeConstantScalar_def)
  show e: "dtype_of \<Gamma> (exps_of ax data input_scale input_zero_point) = Some (DInt 64)"
    by (simp add: exps_of_def xb q const_i64_def MakeConstantScalar_def)
  show s: "dtype_of \<Gamma> (sums_of ax data input_scale input_zero_point) = Some (DInt 64)"
    by (simp add: sums_of_def e)
  show "dtype_of \<Gamma> (output_of ax data input_scale input_zero_point) = Some (DInt 64)"
    by (simp add: output_of_def e s const_i64_def MakeConstantScalar_def)
qed

lemma casts_of_x_p:
  "casts_of (x_p_of ax data zp)
     = {Cast data (DInt 64), Cast zp (DInt 64)} \<union> casts_of data \<union> casts_of zp"
  by (auto simp: x_p_of_def Let_def x_of_def max_of_def quantized_data_of_def const_i64_def
      MakeConstantScalar_def)

lemma casts_of_x_0:
  "casts_of (x_0_of scale)
     = {Cast (Round (Divide (Constant (DFloat 32) (FloatVal 1)) scale)) (DInt 64)}
       \<union> casts_of scale"
  by (simp add: x_0_of_def MakeConstantScalar_def)

lemma casts_of_exps:
  "casts_of (exps_of ax data scale zp)
     = casts_of (x_p_of ax data zp) \<union> casts_of (x_0_of scale)"
  by (auto simp: exps_of_def x_b_of_def r_of_def q_of_def const_i64_def MakeConstantScalar_def)

lemma casts_of_output:
  "casts_of (output_of ax data scale zp) = casts_of (exps_of ax data scale zp)"
  by (simp add: output_of_def sums_of_def const_i64_def MakeConstantScalar_def)

lemma constants_of_x_p:
  "constants_of (x_p_of ax data zp)
     = {Constant (DInt 64) (IntVal 1), Constant (DInt 64) (IntVal 4)}
       \<union> constants_of data \<union> constants_of zp"
  by (auto simp: x_p_of_def Let_def x_of_def max_of_def quantized_data_of_def const_i64_def
      MakeConstantScalar_def)

lemma constants_of_x_0:
  "constants_of (x_0_of scale) = {Constant (DFloat 32) (FloatVal 1)} \<union> constants_of scale"
  by (simp add: x_0_of_def MakeConstantScalar_def)

lemma constants_of_exps:
  "constants_of (exps_of ax data scale zp)
     = {Constant (DInt 64) (IntVal 1), Constant (DInt 64) (IntVal 30)}
       \<union> constants_of (x_p_of ax data zp) \<union> constants_of (x_0_of scale)"
  by (auto simp: exps_of_def x_b_of_def r_of_def q_of_def const_i64_def MakeConstantScalar_def
      const_n_def)

lemma constants_of_output:
  "constants_of (output_of ax data scale zp)
     = {Constant (DInt 64) (IntVal (2 ^ 60)), Constant (DInt 64) (IntVal 52)}
       \<union> constants_of (exps_of ax data scale zp)"
  by (auto simp: output_of_def sums_of_def const_i64_def MakeConstantScalar_def const_m_def
      const_bits_def)

lemma int64_or_given_mono: "int64_or_given \<Gamma> A e \<Longrightarrow> A \<subseteq> B \<Longrightarrow> int64_or_given \<Gamma> B e"
  by (auto simp: int64_or_given_def)

lemma all_x_p:
  assumes "dtype_of \<Gamma> data = Some (DInt 8)" "dtype_of \<Gamma> zp = Some (DInt 32)"
  shows "\<forall>e\<in>subexprs (x_p_of ax data zp).
           int64_or_given \<Gamma> (subexprs data \<union> subexprs zp) e"
  using assms
  by (auto simp: x_p_of_def Let_def x_of_def max_of_def quantized_data_of_def const_i64_def
      MakeConstantScalar_def int64_or_given_def)

lemma all_x_0:
  assumes "dtype_of \<Gamma> scale = Some (DFloat 32)"
  shows "\<forall>e\<in>subexprs (x_0_of scale).
           int64_or_given \<Gamma>
             (subexprs scale \<union>
              {Constant (DFloat 32) (FloatVal 1), Divide (Constant (DFloat 32) (FloatVal 1)) scale,
               Round (Divide (Constant (DFloat 32) (FloatVal 1)) scale)}) e"
  using assms
  by (auto simp: x_0_of_def MakeConstantScalar_def int64_or_given_def)

lemma all_output:
  assumes "dtype_of \<Gamma> data = Some (DInt 8)" "dtype_of \<Gamma> scale = Some (DFloat 32)"
      and "dtype_of \<Gamma> zp = Some (DInt 32)"
  shows "\<forall>e\<in>subexprs (output_of ax data scale zp).
           int64_or_given \<Gamma>
             (subexprs data \<union> subexprs scale \<union> subexprs zp \<union>
              {Constant (DFloat 32) (FloatVal 1), Divide (Constant (DFloat 32) (FloatVal 1)) scale,
               Round (Divide (Constant (DFloat 32) (FloatVal 1)) scale)}) e"
proof -
  let ?G = "subexprs data \<union> subexprs scale \<union> subexprs zp \<union>
              {Constant (DFloat 32) (FloatVal 1), Divide (Constant (DFloat 32) (FloatVal 1)) scale,
               Round (Divide (Constant (DFloat 32) (FloatVal 1)) scale)}"
  have xp: "\<forall>e\<in>subexprs (x_p_of ax data zp). int64_or_given \<Gamma> ?G e"
    using all_x_p [OF assms(1,3), of ax] by (auto elim: int64_or_given_mono)
  have x0: "\<forall>e\<in>subexprs (x_0_of scale). int64_or_given \<Gamma> ?G e"
    using all_x_0 [OF assms(2)] by (auto elim: int64_or_given_mono)
  have txp: "dtype_of \<Gamma> (x_p_of ax data zp) = Some (DInt 64)"
    using assms
    by (simp add: x_p_of_def Let_def x_of_def max_of_def quantized_data_of_def const_i64_def
        MakeConstantScalar_def)
  have tx0: "dtype_of \<Gamma> (x_0_of scale) = Some (DInt 64)"
    using assms by (simp add: x_0_of_def MakeConstantScalar_def)
  show ?thesis
    using xp x0
    by (simp add: output_of_def sums_of_def exps_of_def x_b_of_def r_of_def q_of_def
        const_i64_def MakeConstantScalar_def ball_Un txp tx0)
       (simp add: int64_or_given_def txp tx0)
qed

text \<open>
  Claim C10, as stated, fails. The lowering builds the reciprocal scale in floating point:
  the node that rounds \<open>1 / scale\<close> is part of the wide output and has the element
  type \<^verbatim>\<open>Float(32)\<close>, and the constant \<open>1\<close> it divides is a \<^verbatim>\<open>Float(32)\<close> scalar.
\<close>

theorem float_reciprocal_counterexample:
  "Round (Divide (Constant (DFloat 32) (FloatVal 1)) (Var ''scale''))
     \<in> subexprs (output_of 0 (Var ''data'') (Var ''scale'') (Var ''zero_point''))
   \<and> dtype_of [''data'' \<mapsto> DInt 8, ''scale'' \<mapsto> DFloat 32, ''zero_point'' \<mapsto> DInt 32]
       (Round (Divide (Constant (DFloat 32) (FloatVal 1)) (Var ''scale''))) = Some (DFloat 32)
   \<and> Constant (DFloat 32) (FloatVal 1)
       \<in> constants_of (output_of 0 (Var ''data'') (Var ''scale'') (Var ''zero_point''))"
  by (simp add: output_of_def sums_of_def exps_of_def x_b_of_def r_of_def q_of_def x_0_of_def
      const_i64_def MakeConstantScalar_def)

text \<open>
  Claim C10, amended. For an \<^verbatim>\<open>int8\<close> data operand, a \<^verbatim>\<open>float32\<close> scale and an
  \<^verbatim>\<open>int32\<close> zero point, the widened operand and every local expression of the lowering
  has the element type \<^verbatim>\<open>Int(64)\<close>, and so has every node of the wide output that the
  lowering builds, except the three \<^verbatim>\<open>Float(32)\<close> nodes that compute the reciprocal scale
  before its cast to \<^verbatim>\<open>Int(64)\<close>: the constant \<open>1\<close>, its division by the scale and
  the rounding. The integer constants are \<^verbatim>\<open>Int(64)\<close> scalars. The casts the lowering
  adds are three casts to \<^verbatim>\<open>Int(64)\<close> and the one cast of the wide output to
  \<^verbatim>\<open>Int(32)\<close>, the data argument of the requantization, which is the only narrowing.
\<close>

theorem intermediates_are_int64_except_reciprocal:
  assumes "dtype_of \<Gamma> data = Some (DInt 8)"
      and "dtype_of \<Gamma> input_scale = Some (DFloat 32)"
      and "dtype_of \<Gamma> input_zero_point = Some (DInt 32)"
  shows "dtype_of \<Gamma> (Cast data (DInt 64)) = Some (DInt 64)
       \<and> dtype_of \<Gamma> (quantized_data_of data input_zero_point) = Some (DInt 64)
       \<and> dtype_of \<Gamma> (x_0_of input_scale) = Some (DInt 64)
       \<and> dtype_of \<Gamma> (max_of (axis attrs) data input_zero_point) = Some (DInt 64)
       \<and> dtype_of \<Gamma> (x_of (axis attrs) data input_zero_point) = Some (DInt 64)
       \<and> dtype_of \<Gamma> (x_p_of (axis attrs) data input_zero_point) = Some (DInt 64)
       \<and> dtype_of \<Gamma> (q_of (axis attrs) data input_scale input_zero_point) = Some (DInt 64)
       \<and> dtype_of \<Gamma> (r_of (axis attrs) data input_scale input_zero_point) = Some (DInt 64)
       \<and> dtype_of \<Gamma> (x_b_of (axis attrs) data input_scale input_zero_point) = Some (DInt 64)
       \<and> dtype_of \<Gamma> (exps_of (axis attrs) data input_scale input_zero_point) = Some (DInt 64)
       \<and> dtype_of \<Gamma> (sums_of (axis attrs) data input_scale input_zero_point) = Some (DInt 64)
       \<and> dtype_of \<Gamma> (output_of (axis attrs) data input_scale input_zero_point) = Some (DInt 64)
       \<and> (\<forall>e\<in>subexprs (output_of (axis attrs) data input_scale input_zero_point).
             e \<in> subexprs data \<union> subexprs input_scale \<union> subexprs input_zero_point
           \<or> e \<in> {Constant (DFloat 32) (FloatVal 1),
                   Divide (Constant (DFloat 32) (FloatVal 1)) input_scale,
                   Round (Divide (Constant (DFloat 32) (FloatVal 1)) input_scale)}
           \<or> dtype_of \<Gamma> e = Some (DInt 64))
       \<and> constants_of (output_of (axis attrs) data input_scale input_zero_point)
           = {Constant (DInt 64) (IntVal 1), Constant (DInt 64) (IntVal 4),
              Constant (DInt 64) (IntVal 30), Constant (DInt 64) (IntVal (2 ^ 60)),
              Constant (DInt 64) (IntVal 52), Constant (DFloat 32) (FloatVal 1)}
             \<union> constants_of data \<union> constants_of input_scale \<union> constants_of input_zero_point
       \<and> (case QnnSoftmaxCanonicalize attrs
                 [data, input_scale, input_zero_point, output_scale, output_zero_point]
                 (TensorType shape dt # arg_types) of
             Inl e \<Rightarrow> False
           | Inr requantized \<Rightarrow>
               casts_of requantized
                 = {Cast (output_of (axis attrs) data input_scale input_zero_point) (DInt 32),
                    Cast data (DInt 64), Cast input_zero_point (DInt 64),
                    Cast (Round (Divide (Constant (DFloat 32) (FloatVal 1)) input_scale))
                      (DInt 64)}
                   \<union> casts_of data \<union> casts_of input_scale \<union> casts_of input_zero_point
                   \<union> casts_of output_scale \<union> casts_of output_zero_point)"
proof -
  have c: "constants_of (output_of (axis attrs) data input_scale input_zero_point)
           = {Constant (DInt 64) (IntVal 1), Constant (DInt 64) (IntVal 4),
              Constant (DInt 64) (IntVal 30), Constant (DInt 64) (IntVal (2 ^ 60)),
              Constant (DInt 64) (IntVal 52), Constant (DFloat 32) (FloatVal 1)}
             \<union> constants_of data \<union> constants_of input_scale \<union> constants_of input_zero_point"
    unfolding constants_of_output constants_of_exps constants_of_x_p constants_of_x_0
    by blast
  have k: "casts_of (output_of (axis attrs) data input_scale input_zero_point)
           = {Cast data (DInt 64), Cast input_zero_point (DInt 64),
              Cast (Round (Divide (Constant (DFloat 32) (FloatVal 1)) input_scale)) (DInt 64)}
             \<union> casts_of data \<union> casts_of input_scale \<union> casts_of input_zero_point"
    unfolding casts_of_output casts_of_exps casts_of_x_p casts_of_x_0
    by blast
  have f: "(case QnnSoftmaxCanonicalize attrs
                 [data, input_scale, input_zero_point, output_scale, output_zero_point]
                 (TensorType shape dt # arg_types) of
             Inl e \<Rightarrow> False
           | Inr requantized \<Rightarrow>
               casts_of requantized
                 = {Cast (output_of (axis attrs) data input_scale input_zero_point) (DInt 32),
                    Cast data (DInt 64), Cast input_zero_point (DInt 64),
                    Cast (Round (Divide (Constant (DFloat 32) (FloatVal 1)) input_scale))
                      (DInt 64)}
                   \<union> casts_of data \<union> casts_of input_scale \<union> casts_of input_zero_point
                   \<union> casts_of output_scale \<union> casts_of output_zero_point)"
    by (simp add: QnnSoftmaxCanonicalize_def MakeConstantScalar_def const_i64_def k)
  have a: "\<forall>e\<in>subexprs (output_of (axis attrs) data input_scale input_zero_point).
             e \<in> subexprs data \<union> subexprs input_scale \<union> subexprs input_zero_point
           \<or> e \<in> {Constant (DFloat 32) (FloatVal 1),
                   Divide (Constant (DFloat 32) (FloatVal 1)) input_scale,
                   Round (Divide (Constant (DFloat 32) (FloatVal 1)) input_scale)}
           \<or> dtype_of \<Gamma> e = Some (DInt 64)"
    using all_output [OF assms, of "axis attrs"] by (auto simp: int64_or_given_def)
  from dtype_of_locals [OF assms] assms(1) c f a show ?thesis
    by simp
qed

theorem intermediates_are_int64_except_reciprocal_witness:
  "dtype_of [''data'' \<mapsto> DInt 8, ''scale'' \<mapsto> DFloat 32, ''zero_point'' \<mapsto> DInt 32]
     (output_of 1 (Var ''data'') (Var ''scale'') (Var ''zero_point'')) = Some (DInt 64)
   \<and> dtype_of [''data'' \<mapsto> DInt 8, ''scale'' \<mapsto> DFloat 32, ''zero_point'' \<mapsto> DInt 32]
     (q_of 1 (Var ''data'') (Var ''scale'') (Var ''zero_point'')) = Some (DInt 64)
   \<and> casts_of (Requantize
         (Cast (output_of 1 (Var ''data'') (Var ''scale'') (Var ''zero_point'')) (DInt 32))
         [IntImm 2, IntImm 3] (Constant (DFloat 32) (FloatVal (1 / 256)))
         (Constant (DInt 64) (IntVal 0)) (Var ''output_scale'') (Var ''output_zero_point'')
         (DInt 8) 0)
     = {Cast (output_of 1 (Var ''data'') (Var ''scale'') (Var ''zero_point'')) (DInt 32),
        Cast (Var ''data'') (DInt 64), Cast (Var ''zero_point'') (DInt 64),
        Cast (Round (Divide (Constant (DFloat 32) (FloatVal 1)) (Var ''scale''))) (DInt 64)}"
  using intermediates_are_int64_except_reciprocal
    [of "[''data'' \<mapsto> DInt 8, ''scale'' \<mapsto> DFloat 32, ''zero_point'' \<mapsto> DInt 32]"
        "Var ''data''" "Var ''scale''" "Var ''zero_point''" "\<lparr>axis = 1\<rparr>"
        "Var ''output_scale''" "Var ''output_zero_point''" "[IntImm 2, IntImm 3]" "DInt 8" "[]"]
  by (simp add: QnnSoftmaxCanonicalize_def MakeConstantScalar_def const_i64_def const_bits_def)

end
